theory Spec2Isabelle
  imports Main "HOL-Library.Sublist" "HOL-Library.Word"
begin

section \<open>Strings and the escaping primitives\<close>

text \<open>
  A Go string is a sequence of bytes, and so is a HOL \<open>string\<close>.  The three characters
  that the SQL builders treat specially are named, so that no literal has to contain them
  at its end.
\<close>

definition backslash :: char where
  "backslash = CHR 0x5C"

definition squote :: char where
  "squote = CHR 0x27"

definition dquote :: char where
  "dquote = CHR 0x22"

text \<open>
  \<open>strings.ReplaceAll(s, old, new)\<close> for a pattern \<open>old\<close> of one byte, which is the only
  way the sources call it: every occurrence of the byte is replaced, left to right.
\<close>

primrec ReplaceAll :: "string \<Rightarrow> char \<Rightarrow> string \<Rightarrow> string" where
  "ReplaceAll [] old new = []"
| "ReplaceAll (c # cs) old new =
     (if c = old then new @ ReplaceAll cs old new else c # ReplaceAll cs old new)"

text \<open>\<open>strings.Join(elems, sep)\<close>.\<close>

fun Join :: "string list \<Rightarrow> string \<Rightarrow> string" where
  "Join [] sep = []"
| "Join [x] sep = x"
| "Join (x # y # ys) sep = x @ sep @ Join (y # ys) sep"

text \<open>\<open>quoteIdentifier\<close> (query builder of the logs module).\<close>

definition quoteIdentifier :: "string \<Rightarrow> string" where
  "quoteIdentifier identifier =
     [dquote] @ ReplaceAll identifier dquote [dquote, dquote] @ [dquote]"

text \<open>
  \<open>escapeSQLString\<close>; the logs module and the tracing module each carry a copy of it with
  the same body.
\<close>

definition escapeSQLString :: "string \<Rightarrow> string" where
  "escapeSQLString v =
     (let v1 = ReplaceAll v backslash [backslash, backslash];
          v2 = ReplaceAll v1 squote [squote, squote]
      in v2)"

text \<open>
  The reference reader of a single-quoted literal, which the specification's round-trip
  property is stated against.  It is not code of the repository: it follows the
  specification's words (a literal-unescaping reference).  \<open>literalBody\<close> reads the text
  after the opening quote: a backslash makes the next character part of the value, two
  quotes stand for one, and a single quote ends the literal; it returns the value that the
  literal denotes and the text left after the closing quote, or \<open>None\<close> when the literal
  is never closed.  \<open>unescapeLiteral\<close> accepts a text that is exactly one literal.
\<close>

fun literalBody :: "string \<Rightarrow> (string \<times> string) option" where
  "literalBody [] = None"
| "literalBody (c # cs) =
    (if c = backslash then
       (case cs of
          [] \<Rightarrow> None
        | d # ds \<Rightarrow> map_option (\<lambda>(v, r). (d # v, r)) (literalBody ds))
     else if c = squote then
       (case cs of
          [] \<Rightarrow> Some ([], [])
        | d # ds \<Rightarrow>
            if d = squote then map_option (\<lambda>(v, r). (squote # v, r)) (literalBody ds)
            else Some ([], cs))
     else map_option (\<lambda>(v, r). (c # v, r)) (literalBody cs))"

definition unescapeLiteral :: "string \<Rightarrow> string option" where
  "unescapeLiteral t =
     (case t of
        [] \<Rightarrow> None
      | q # body \<Rightarrow>
          if q = squote then
            (case literalBody body of
               Some (v, []) \<Rightarrow> Some v
             | _ \<Rightarrow> None)
          else None)"

section \<open>The logs module: query builder\<close>

text \<open>
  The parameter structs of \<open>client.go\<close>.  A \<open>time.Time\<close> enters the queries only through
  \<open>UnixMicro()\<close>, so the two time fields hold that reading.  \<open>Limit\<close> is a Go \<open>int\<close>.
\<close>

record ComponentLogsParams =
  cl_Namespace :: string
  cl_ComponentIDs :: "string list"
  cl_EnvironmentID :: string
  cl_ProjectID :: string
  cl_StartTime :: int
  cl_EndTime :: int
  cl_SearchPhrase :: string
  cl_LogLevels :: "string list"
  cl_Limit :: int
  cl_SortOrder :: string

record WorkflowLogsParams =
  wl_Namespace :: string
  wl_WorkflowRunName :: string
  wl_StartTime :: int
  wl_EndTime :: int
  wl_SearchPhrase :: string
  wl_LogLevels :: "string list"
  wl_Limit :: int
  wl_SortOrder :: string

text \<open>
  The query document that the builders hand to \<open>json.Marshal\<close>: the inner \<open>query\<close> object
  and the outer \<open>timeout\<close> key, which the traces list query leaves out.  The JSON encoding
  itself is not modelled; a builder returns the document.
\<close>

record SearchQuery =
  q_sql :: string
  q_start_time :: int
  q_end_time :: int
  q_from :: int
  q_size :: int
  q_timeout :: "int option"

text \<open>The loop over \<open>params.LogLevels\<close> and the group it is joined into.\<close>

definition levelConditions :: "string list \<Rightarrow> string list" where
  "levelConditions levels =
     map (\<lambda>level. ''logLevel = '' @ [squote] @ escapeSQLString level @ [squote]) levels"

definition componentConditions :: "string list \<Rightarrow> string list" where
  "componentConditions ids =
     map (\<lambda>ident. ''kubernetes_labels_openchoreo_dev_component_uid = '' @ [squote]
                     @ escapeSQLString ident @ [squote]) ids"

text \<open>The sort order branch, the same in both builders of the logs module.\<close>

definition orderByTimestamp :: "string \<Rightarrow> string" where
  "orderByTimestamp sortOrder =
     (if sortOrder = ''ASC'' \<or> sortOrder = ''asc'' then '' ORDER BY _timestamp ASC''
      else '' ORDER BY _timestamp DESC'')"

text \<open>\<open>limit := params.Limit; if limit <= 0 { limit = 100 }\<close>\<close>

definition defaultLimit :: "int \<Rightarrow> int" where
  "defaultLimit limit = (if limit \<le> 0 then 100 else limit)"

text \<open>The \<open>conditions\<close> slice of \<open>generateWorkflowLogsQuery\<close>, appended to in source order.\<close>

definition workflowLogsConditions :: "WorkflowLogsParams \<Rightarrow> string list" where
  "workflowLogsConditions params =
     (let conditions = [];
          conditions =
            (if wl_Namespace params \<noteq> [] then
               conditions @ [''kubernetes_namespace_name = 'openchoreo-ci-''
                              @ escapeSQLString (wl_Namespace params) @ [squote]]
             else conditions);
          conditions =
            (if wl_WorkflowRunName params \<noteq> [] then
               conditions @ [''kubernetes_labels_workflows_argoproj_io_workflow = '' @ [squote]
                              @ escapeSQLString (wl_WorkflowRunName params) @ [squote]]
             else conditions);
          conditions =
            (if wl_SearchPhrase params \<noteq> [] then
               conditions @ [''log LIKE '%'' @ escapeSQLString (wl_SearchPhrase params)
                              @ ''%'' @ [squote]]
             else conditions);
          conditions =
            (if wl_LogLevels params \<noteq> [] then
               conditions @ [''('' @ Join (levelConditions (wl_LogLevels params)) '' OR ''
                              @ '')'']
             else conditions)
      in conditions)"

definition generateWorkflowLogsQuery :: "WorkflowLogsParams \<Rightarrow> string \<Rightarrow> string + SearchQuery" where
  "generateWorkflowLogsQuery params stream =
     (let conditions = workflowLogsConditions params;
          sql = ''SELECT * FROM '' @ quoteIdentifier stream;
          sql = (if conditions \<noteq> [] then sql @ '' WHERE '' @ Join conditions '' AND ''
                 else sql);
          sql = sql @ orderByTimestamp (wl_SortOrder params);
          limit = defaultLimit (wl_Limit params)
      in Inr \<lparr> q_sql = sql,
               q_start_time = wl_StartTime params,
               q_end_time = wl_EndTime params,
               q_from = 0,
               q_size = limit,
               q_timeout = Some 0 \<rparr>)"

text \<open>The \<open>conditions\<close> slice of \<open>generateComponentLogsQuery\<close>.\<close>

definition componentLogsConditions :: "ComponentLogsParams \<Rightarrow> string list" where
  "componentLogsConditions params =
     (let conditions = [];
          conditions =
            conditions @ [''kubernetes_labels_openchoreo_dev_namespace = '' @ [squote]
                           @ escapeSQLString (cl_Namespace params) @ [squote]];
          conditions =
            (if cl_ProjectID params \<noteq> [] then
               conditions @ [''kubernetes_labels_openchoreo_dev_project_uid = '' @ [squote]
                              @ escapeSQLString (cl_ProjectID params) @ [squote]]
             else conditions);
          conditions =
            (if cl_EnvironmentID params \<noteq> [] then
               conditions @ [''kubernetes_labels_openchoreo_dev_environment_uid = '' @ [squote]
                              @ escapeSQLString (cl_EnvironmentID params) @ [squote]]
             else conditions);
          conditions =
            (if cl_ComponentIDs params \<noteq> [] then
               conditions @ [''('' @ Join (componentConditions (cl_ComponentIDs params)) '' OR ''
                              @ '')'']
             else conditions);
          conditions =
            (if cl_SearchPhrase params \<noteq> [] then
               conditions @ [''log LIKE '%'' @ escapeSQLString (cl_SearchPhrase params)
                              @ ''%'' @ [squote]]
             else conditions);
          conditions =
            (if cl_LogLevels params \<noteq> [] then
               conditions @ [''('' @ Join (levelConditions (cl_LogLevels params)) '' OR ''
                              @ '')'']
             else conditions)
      in conditions)"

definition generateComponentLogsQuery :: "ComponentLogsParams \<Rightarrow> string \<Rightarrow> string + SearchQuery" where
  "generateComponentLogsQuery params stream =
     (if cl_Namespace params = [] then
        Inl ''namespace is required for component log queries''
      else
        (let conditions = componentLogsConditions params;
             sql = ''SELECT * FROM '' @ quoteIdentifier stream;
             sql = (if conditions \<noteq> [] then sql @ '' WHERE '' @ Join conditions '' AND ''
                    else sql);
             sql = sql @ orderByTimestamp (cl_SortOrder params);
             limit = defaultLimit (cl_Limit params)
         in Inr \<lparr> q_sql = sql,
                  q_start_time = cl_StartTime params,
                  q_end_time = cl_EndTime params,
                  q_from = 0,
                  q_size = limit,
                  q_timeout = Some 0 \<rparr>))"

text \<open>
  \<open>mapOperator\<close> and \<open>generateAlertConfig\<close>.  The verb \<open>%q\<close> of \<open>fmt.Errorf\<close> renders its
  argument with \<open>strconv.Quote\<close>, a function of Go's library; the model takes it as the
  parameter \<open>Quote\<close>.  The threshold is a \<open>float32\<close> that is only copied, so its type is
  left open.
\<close>

definition mapOperator :: "(string \<Rightarrow> string) \<Rightarrow> string \<Rightarrow> string + string" where
  "mapOperator Quote op =
     (if op = ''gt'' then Inr ''>''
      else if op = ''gte'' then Inr ''>=''
      else if op = ''lt'' then Inr ''<''
      else if op = ''lte'' then Inr ''<=''
      else if op = ''eq'' then Inr ''=''
      else if op = ''neq'' then Inr ''!=''
      else Inl (''unsupported operator '' @ Quote op
                @ '': must be one of gt, gte, lt, lte, eq, neq''))"

record 'f LogAlertParams =
  la_Name :: "string option"
  la_Namespace :: string
  la_ProjectUID :: string
  la_EnvironmentUID :: string
  la_ComponentUID :: string
  la_SearchPattern :: string
  la_Operator :: string
  la_ThresholdValue :: 'f
  la_Window :: string
  la_Interval :: string

record 'f AlertCondition =
  cond_column :: string
  cond_operator :: string
  cond_value :: 'f

record 'f AlertConfig =
  ac_name :: string
  ac_stream_name :: string
  ac_query :: string
  ac_condition :: "'f AlertCondition"
  ac_duration :: string
  ac_frequency :: string
  ac_is_realtime :: string
  ac_destinations :: "string list"
  ac_alert_type :: string

definition generateAlertConfig ::
  "(string \<Rightarrow> string) \<Rightarrow> 'f LogAlertParams \<Rightarrow> string \<Rightarrow> string + 'f AlertConfig" where
  "generateAlertConfig Quote params streamName =
     (let query = ''SELECT count(*) as '' @ ''match_count'' @ '' FROM ''
                  @ quoteIdentifier streamName @ '' WHERE str_match(log, '' @ [squote]
                  @ escapeSQLString (la_SearchPattern params) @ [squote] @ '')''
      in case mapOperator Quote (la_Operator params) of
           Inl err \<Rightarrow> Inl (''invalid alert operator: '' @ err)
         | Inr sqlOperator \<Rightarrow>
             (let alertName = (case la_Name params of None \<Rightarrow> [] | Some n \<Rightarrow> n)
              in Inr \<lparr> ac_name = alertName,
                       ac_stream_name = streamName,
                       ac_query = query,
                       ac_condition = \<lparr> cond_column = ''match_count'',
                                        cond_operator = sqlOperator,
                                        cond_value = la_ThresholdValue params \<rparr>,
                       ac_duration = la_Window params,
                       ac_frequency = la_Interval params,
                       ac_is_realtime = ''no'',
                       ac_destinations = [''openchoreo_alerts''],
                       ac_alert_type = ''scheduled'' \<rparr>))"

section \<open>The tracing module: query builder\<close>

record Scope =
  sc_Namespace :: string
  sc_ProjectID :: string
  sc_ComponentID :: string
  sc_EnvironmentID :: string

record TracesQueryParams =
  tq_StartTime :: int
  tq_EndTime :: int
  tq_Limit :: int
  tq_Sort :: string
  tq_Scope :: Scope
  tq_TraceID :: string
  tq_SpanID :: string

definition buildFilterConditions :: "TracesQueryParams \<Rightarrow> string list" where
  "buildFilterConditions params =
     (let conditions = [];
          conditions =
            (if sc_Namespace (tq_Scope params) \<noteq> [] then
               conditions @ [''service_openchoreo_dev_namespace = '' @ [squote]
                              @ escapeSQLString (sc_Namespace (tq_Scope params)) @ [squote]]
             else conditions);
          conditions =
            (if sc_ProjectID (tq_Scope params) \<noteq> [] then
               conditions @ [''service_openchoreo_dev_project_uid = '' @ [squote]
                              @ escapeSQLString (sc_ProjectID (tq_Scope params)) @ [squote]]
             else conditions);
          conditions =
            (if sc_EnvironmentID (tq_Scope params) \<noteq> [] then
               conditions @ [''service_openchoreo_dev_environment_uid = '' @ [squote]
                              @ escapeSQLString (sc_EnvironmentID (tq_Scope params)) @ [squote]]
             else conditions);
          conditions =
            (if sc_ComponentID (tq_Scope params) \<noteq> [] then
               conditions @ [''service_openchoreo_dev_component_uid = '' @ [squote]
                              @ escapeSQLString (sc_ComponentID (tq_Scope params)) @ [squote]]
             else conditions)
      in conditions)"

text \<open>
  The three builders of the tracing module put the stream name into the text as it is
  (\<open>FROM %s\<close>); the stream is a setting of the client, not a field of a request.
\<close>

definition generateTracesListQuery :: "TracesQueryParams \<Rightarrow> string \<Rightarrow> string + SearchQuery" where
  "generateTracesListQuery params stream =
     (let sql = ''SELECT trace_id, span_id, operation_name, span_kind, ''
                @ ''start_time, end_time, reference_parent_span_id ''
                @ ''FROM '' @ stream;
          conditions = buildFilterConditions params;
          sql = (if conditions \<noteq> [] then sql @ '' WHERE '' @ Join conditions '' AND ''
                 else sql);
          sql = sql @ '' ORDER BY start_time''
      in Inr \<lparr> q_sql = sql,
               q_start_time = tq_StartTime params,
               q_end_time = tq_EndTime params,
               q_from = 0,
               q_size = - 1,
               q_timeout = None \<rparr>)"

definition generateSpansListQuery :: "TracesQueryParams \<Rightarrow> string \<Rightarrow> string + SearchQuery" where
  "generateSpansListQuery params stream =
     (let conditions = [''trace_id = '' @ [squote] @ escapeSQLString (tq_TraceID params)
                         @ [squote]];
          sql = ''SELECT span_id, operation_name, span_kind, start_time, end_time, ''
                @ ''end_time - start_time as duration, reference_parent_span_id ''
                @ ''FROM '' @ stream @ '' WHERE '' @ Join conditions '' AND '';
          sql = (if tq_Sort params = ''asc'' \<or> tq_Sort params = ''ASC''
                 then sql @ '' ORDER BY start_time ASC''
                 else sql @ '' ORDER BY start_time DESC'');
          limit = defaultLimit (tq_Limit params)
      in Inr \<lparr> q_sql = sql,
               q_start_time = tq_StartTime params,
               q_end_time = tq_EndTime params,
               q_from = 0,
               q_size = limit,
               q_timeout = Some 0 \<rparr>)"

text \<open>\<open>int64(math.MaxInt64 / 2)\<close> is \<open>4611686018427387903\<close>.\<close>

definition generateSpanDetailQuery :: "TracesQueryParams \<Rightarrow> string \<Rightarrow> string + SearchQuery" where
  "generateSpanDetailQuery params stream =
     (let conditions = [''trace_id = '' @ [squote] @ escapeSQLString (tq_TraceID params)
                         @ [squote],
                        ''span_id = '' @ [squote] @ escapeSQLString (tq_SpanID params)
                         @ [squote]];
          sql = ''SELECT * FROM '' @ stream @ '' WHERE '' @ Join conditions '' AND ''
      in Inr \<lparr> q_sql = sql,
               q_start_time = 1,
               q_end_time = (2 ^ 63 - 1) div 2,
               q_from = 0,
               q_size = 1,
               q_timeout = Some 0 \<rparr>)"

section \<open>The search execution clients\<close>

text \<open>
  Decimal rendering of a Go \<open>int\<close>, as the verb \<open>%d\<close> and \<open>slog.Int\<close> produce it.
\<close>

definition digitChar :: "nat \<Rightarrow> char" where
  "digitChar d = ''0123456789'' ! d"

function natDigits :: "nat \<Rightarrow> string" where
  "natDigits n = (if n < 10 then [digitChar n] else natDigits (n div 10) @ [digitChar (n mod 10)])"
  by pat_completeness auto
termination
  by (relation "measure (\<lambda>n. n)") auto

declare natDigits.simps [simp del]

definition itoa :: "int \<Rightarrow> string" where
  "itoa i = (if i < 0 then ''-'' @ natDigits (nat (- i)) else natDigits (nat i))"

text \<open>
  What a client function observes of one HTTP exchange: \<open>http.NewRequestWithContext\<close>
  failed, \<open>httpClient.Do\<close> failed, \<open>io.ReadAll\<close> of the body failed (each with the text of
  the error), or a response arrived with a status code and a body.
\<close>

datatype http_outcome =
    NewRequestError string
  | DoError string
  | ReadBodyError string
  | Response int string

text \<open>A record written with \<open>logger.Error\<close>: the message and the attributes, rendered.\<close>

record log_entry =
  log_msg :: string
  log_attrs :: "(string \<times> string) list"

text \<open>
  The response envelope.  The two modules declare the same struct; the type of a hit is
  left open here and fixed where hits are read.
\<close>

record 'h OpenObserveResponse =
  Took :: int
  Hits :: "'h list"
  Total :: int

text \<open>
  \<open>executeSearchQuery\<close> of the logs module.  The exchange with the backend is the
  parameter \<open>backend\<close>, the JSON decoder of the envelope is the parameter \<open>Unmarshal\<close>; the
  result is the list of log records written and the value returned.
\<close>

definition logs_executeSearchQuery ::
  "(string \<Rightarrow> string + 'r) \<Rightarrow> ('q \<Rightarrow> http_outcome) \<Rightarrow> 'q \<Rightarrow> log_entry list \<times> (string + 'r)" where
  "logs_executeSearchQuery Unmarshal backend queryJSON =
     (case backend queryJSON of
        NewRequestError err \<Rightarrow>
          ([\<lparr> log_msg = ''Failed to create request'', log_attrs = [(''error'', err)] \<rparr>],
           Inl (''failed to create request: '' @ err))
      | DoError err \<Rightarrow>
          ([\<lparr> log_msg = ''Failed to execute search request against OpenObserve'',
              log_attrs = [(''error'', err)] \<rparr>],
           Inl (''failed to execute request: '' @ err))
      | ReadBodyError err \<Rightarrow>
          ([\<lparr> log_msg = ''Failed to read response body returned by OpenObserve'',
              log_attrs = [(''error'', err)] \<rparr>],
           Inl (''failed to read response body: '' @ err))
      | Response statusCode body \<Rightarrow>
          if statusCode \<noteq> 200 then
            ([\<lparr> log_msg = ''OpenObserve returned error'',
                log_attrs = [(''statusCode'', itoa statusCode), (''body'', body)] \<rparr>],
             Inl (''openobserve returned status '' @ itoa statusCode @ '': '' @ body))
          else
            (case Unmarshal body of
               Inl err \<Rightarrow>
                 ([\<lparr> log_msg = ''Failed to unmarshal response from OpenObserve'',
                     log_attrs = [(''error'', err)] \<rparr>],
                  Inl (''failed to unmarshal response: '' @ err))
             | Inr openObserveResp \<Rightarrow> ([], Inr openObserveResp)))"

text \<open>
  \<open>executeSearchQuery\<close> of the tracing module; \<open>Decode\<close> is its decoder (\<open>UseNumber\<close>).
\<close>

definition tracing_executeSearchQuery ::
  "(string \<Rightarrow> string + 'r) \<Rightarrow> ('q \<Rightarrow> http_outcome) \<Rightarrow> 'q \<Rightarrow> log_entry list \<times> (string + 'r)" where
  "tracing_executeSearchQuery Decode backend queryJSON =
     (case backend queryJSON of
        NewRequestError err \<Rightarrow>
          ([\<lparr> log_msg = ''Failed to create request'', log_attrs = [(''error'', err)] \<rparr>],
           Inl (''failed to create request: '' @ err))
      | DoError err \<Rightarrow>
          ([\<lparr> log_msg = ''Failed to execute search request against OpenObserve'',
              log_attrs = [(''error'', err)] \<rparr>],
           Inl (''failed to execute request: '' @ err))
      | ReadBodyError err \<Rightarrow>
          ([\<lparr> log_msg = ''Failed to read response body returned by OpenObserve'',
              log_attrs = [(''error'', err)] \<rparr>],
           Inl (''failed to read response body: '' @ err))
      | Response statusCode body \<Rightarrow>
          if statusCode \<noteq> 200 then
            ([\<lparr> log_msg = ''OpenObserve returned error'',
                log_attrs = [(''statusCode'', itoa statusCode), (''body'', body)] \<rparr>],
             Inl (''openobserve returned status '' @ itoa statusCode
                  @ '': response body omitted''))
          else
            (case Decode body of
               Inl err \<Rightarrow>
                 ([\<lparr> log_msg = ''Failed to unmarshal response from OpenObserve'',
                     log_attrs = [(''error'', err)] \<rparr>],
                  Inl (''failed to unmarshal response: '' @ err))
             | Inr openObserveResp \<Rightarrow> ([], Inr openObserveResp)))"

text \<open>
  \<open>getAlertIDByName\<close> of the logs module: an entry of the decoded \<open>list\<close>, the loop over
  the entries, and the function, which takes the outcome of its GET request.
\<close>

record AlertListEntry =
  ale_AlertID :: string
  ale_Name :: string

primrec getAlertIDByName_loop :: "(string \<Rightarrow> string) \<Rightarrow> AlertListEntry list \<Rightarrow> string \<Rightarrow> string + string" where
  "getAlertIDByName_loop Quote [] name = Inl (''alert '' @ Quote name @ '' not found'')"
| "getAlertIDByName_loop Quote (alert # rest) name =
     (if ale_Name alert = name then Inr (ale_AlertID alert)
      else getAlertIDByName_loop Quote rest name)"

definition getAlertIDByName ::
  "(string \<Rightarrow> string) \<Rightarrow> (string \<Rightarrow> string + AlertListEntry list) \<Rightarrow> http_outcome \<Rightarrow> string
     \<Rightarrow> string + string" where
  "getAlertIDByName Quote Unmarshal outcome name =
     (case outcome of
        NewRequestError err \<Rightarrow> Inl (''failed to create request: '' @ err)
      | DoError err \<Rightarrow> Inl (''failed to execute request: '' @ err)
      | ReadBodyError err \<Rightarrow> Inl (''failed to read response body: '' @ err)
      | Response statusCode body \<Rightarrow>
          if statusCode \<noteq> 200 then
            Inl (''openobserve returned status '' @ itoa statusCode @ '': '' @ body)
          else
            (case Unmarshal body of
               Inl err \<Rightarrow> Inl (''failed to unmarshal response: '' @ err)
             | Inr list \<Rightarrow> getAlertIDByName_loop Quote list name))"

section \<open>The logs module: request handler\<close>

text \<open>
  \<open>strings.TrimSpace\<close>.  Go removes the leading and the trailing white space of a string,
  as Unicode defines it; on the bytes of a string these are the UTF-8 encodings of the 25
  code points with the property White Space, listed in \<open>whiteSpace\<close>.  \<open>stripOneOf\<close> removes
  one of the listed encodings from the front of a string, \<open>trimLeftOf\<close> repeats it, and the
  trailing white space is removed on the reversed string.
\<close>

definition whiteSpace :: "string list" where
  "whiteSpace =
     [[CHR 0x09], [CHR 0x0A], [CHR 0x0B], [CHR 0x0C], [CHR 0x0D], [CHR 0x20],
      [CHR 0xC2, CHR 0x85], [CHR 0xC2, CHR 0xA0],
      [CHR 0xE1, CHR 0x9A, CHR 0x80],
      [CHR 0xE2, CHR 0x80, CHR 0x80], [CHR 0xE2, CHR 0x80, CHR 0x81],
      [CHR 0xE2, CHR 0x80, CHR 0x82], [CHR 0xE2, CHR 0x80, CHR 0x83],
      [CHR 0xE2, CHR 0x80, CHR 0x84], [CHR 0xE2, CHR 0x80, CHR 0x85],
      [CHR 0xE2, CHR 0x80, CHR 0x86], [CHR 0xE2, CHR 0x80, CHR 0x87],
      [CHR 0xE2, CHR 0x80, CHR 0x88], [CHR 0xE2, CHR 0x80, CHR 0x89],
      [CHR 0xE2, CHR 0x80, CHR 0x8A],
      [CHR 0xE2, CHR 0x80, CHR 0xA8], [CHR 0xE2, CHR 0x80, CHR 0xA9],
      [CHR 0xE2, CHR 0x80, CHR 0xAF], [CHR 0xE2, CHR 0x81, CHR 0x9F],
      [CHR 0xE3, CHR 0x80, CHR 0x80]]"

primrec stripOneOf :: "string list \<Rightarrow> string \<Rightarrow> string option" where
  "stripOneOf [] s = None"
| "stripOneOf (w # ws) s =
     (if w \<noteq> [] \<and> prefix w s then Some (drop (length w) s) else stripOneOf ws s)"

lemma stripOneOf_shorter: "stripOneOf ws s = Some r \<Longrightarrow> length r < length s"
  by (induction ws) (auto split: if_splits simp add: prefix_def)

function trimLeftOf :: "string list \<Rightarrow> string \<Rightarrow> string" where
  "trimLeftOf ws s = (case stripOneOf ws s of None \<Rightarrow> s | Some r \<Rightarrow> trimLeftOf ws r)"
  by pat_completeness auto
termination
  by (relation "measure (\<lambda>(ws, s). length s)") (auto simp add: stripOneOf_shorter)

declare trimLeftOf.simps [simp del]

definition TrimSpace :: "string \<Rightarrow> string" where
  "TrimSpace s = rev (trimLeftOf (map rev whiteSpace) (rev (trimLeftOf whiteSpace s)))"

text \<open>
  The two shapes of a search scope, with the fields that the handler reads, and the body of
  a logs query request.  The type \<open>'u\<close> is the undecoded search scope of the request.
\<close>

record WorkflowSearchScope =
  wss_Namespace :: string
  wss_WorkflowRunName :: "string option"

record ComponentSearchScope =
  css_Namespace :: string
  css_ProjectUid :: "string option"
  css_EnvironmentUid :: "string option"
  css_ComponentUid :: "string option"

record 'u LogsQueryRequest =
  rq_SearchScope :: 'u
  rq_StartTime :: int
  rq_EndTime :: int
  rq_Limit :: "int option"
  rq_SortOrder :: "string option"
  rq_SearchPhrase :: "string option"
  rq_LogLevels :: "string list option"

text \<open>\<open>toWorkflowLogsParams\<close> and \<open>toComponentLogsParams\<close> of the handler file.\<close>

definition toWorkflowLogsParams :: "'u LogsQueryRequest \<Rightarrow> WorkflowSearchScope \<Rightarrow> WorkflowLogsParams" where
  "toWorkflowLogsParams req scope =
     (let params = \<lparr> wl_Namespace = wss_Namespace scope, wl_WorkflowRunName = [],
                      wl_StartTime = rq_StartTime req, wl_EndTime = rq_EndTime req,
                      wl_SearchPhrase = [], wl_LogLevels = [], wl_Limit = 0,
                      wl_SortOrder = [] \<rparr>;
          params = (case wss_WorkflowRunName scope of
                      None \<Rightarrow> params | Some n \<Rightarrow> params\<lparr>wl_WorkflowRunName := n\<rparr>);
          params = (case rq_Limit req of
                      None \<Rightarrow> params | Some l \<Rightarrow> params\<lparr>wl_Limit := l\<rparr>);
          params = (case rq_SortOrder req of
                      None \<Rightarrow> params | Some so \<Rightarrow> params\<lparr>wl_SortOrder := so\<rparr>);
          params = (case rq_SearchPhrase req of
                      None \<Rightarrow> params | Some sp \<Rightarrow> params\<lparr>wl_SearchPhrase := sp\<rparr>);
          params = (case rq_LogLevels req of
                      None \<Rightarrow> params | Some ls \<Rightarrow> params\<lparr>wl_LogLevels := ls\<rparr>)
      in params)"

definition toComponentLogsParams :: "'u LogsQueryRequest \<Rightarrow> ComponentSearchScope \<Rightarrow> ComponentLogsParams" where
  "toComponentLogsParams req scope =
     (let params = \<lparr> cl_Namespace = css_Namespace scope, cl_ComponentIDs = [],
                      cl_EnvironmentID = [], cl_ProjectID = [],
                      cl_StartTime = rq_StartTime req, cl_EndTime = rq_EndTime req,
                      cl_SearchPhrase = [], cl_LogLevels = [], cl_Limit = 0,
                      cl_SortOrder = [] \<rparr>;
          params = (case css_ProjectUid scope of
                      None \<Rightarrow> params | Some p \<Rightarrow> params\<lparr>cl_ProjectID := p\<rparr>);
          params = (case css_EnvironmentUid scope of
                      None \<Rightarrow> params | Some e \<Rightarrow> params\<lparr>cl_EnvironmentID := e\<rparr>);
          params = (case css_ComponentUid scope of
                      None \<Rightarrow> params | Some c \<Rightarrow> params\<lparr>cl_ComponentIDs := [c]\<rparr>);
          params = (case rq_Limit req of
                      None \<Rightarrow> params | Some l \<Rightarrow> params\<lparr>cl_Limit := l\<rparr>);
          params = (case rq_SortOrder req of
                      None \<Rightarrow> params | Some so \<Rightarrow> params\<lparr>cl_SortOrder := so\<rparr>);
          params = (case rq_SearchPhrase req of
                      None \<Rightarrow> params | Some sp \<Rightarrow> params\<lparr>cl_SearchPhrase := sp\<rparr>);
          params = (case rq_LogLevels req of
                      None \<Rightarrow> params | Some ls \<Rightarrow> params\<lparr>cl_LogLevels := ls\<rparr>)
      in params)"

text \<open>
  \<open>GetComponentLogs\<close> and \<open>GetWorkflowLogs\<close> of the client: build the query, execute it,
  convert the hits.  The execution (\<open>c.executeSearchQuery\<close> applied to the backend at hand)
  and the conversion of the response are parameters; the log records are left out.
\<close>

definition GetComponentLogs ::
  "string \<Rightarrow> (SearchQuery \<Rightarrow> string + 'r) \<Rightarrow> ('r \<Rightarrow> 'res) \<Rightarrow> ComponentLogsParams \<Rightarrow> string + 'res" where
  "GetComponentLogs stream executeSearchQuery toResult params =
     (case generateComponentLogsQuery params stream of
        Inl err \<Rightarrow> Inl (''failed to marshal query: '' @ err)
      | Inr queryJSON \<Rightarrow>
          (case executeSearchQuery queryJSON of
             Inl err \<Rightarrow> Inl err
           | Inr openObserveResp \<Rightarrow> Inr (toResult openObserveResp)))"

definition GetWorkflowLogs ::
  "string \<Rightarrow> (SearchQuery \<Rightarrow> string + 'r) \<Rightarrow> ('r \<Rightarrow> 'res) \<Rightarrow> WorkflowLogsParams \<Rightarrow> string + 'res" where
  "GetWorkflowLogs stream executeSearchQuery toResult params =
     (case generateWorkflowLogsQuery params stream of
        Inl err \<Rightarrow> Inl (''failed to marshal query: '' @ err)
      | Inr queryJSON \<Rightarrow>
          (case executeSearchQuery queryJSON of
             Inl err \<Rightarrow> Inl err
           | Inr openObserveResp \<Rightarrow> Inr (toResult openObserveResp)))"

text \<open>
  The responses of \<open>QueryLogs\<close>: status 400 and 500 with their message, status 200 with the
  result of the client for the scope that was chosen.
\<close>

datatype ('w, 'c) QueryLogsResponse =
    QueryLogs400 string
  | QueryLogs500 string
  | QueryLogs200Workflow 'w
  | QueryLogs200Component 'c

text \<open>
  The first test of \<open>QueryLogs\<close>: the scope is taken as a workflow scope when the coercion
  succeeded and \<open>workflowRunName\<close> is present and not blank.
\<close>

definition selectedWorkflowScope :: "string + WorkflowSearchScope \<Rightarrow> WorkflowSearchScope option" where
  "selectedWorkflowScope coerced =
     (case coerced of
        Inl err \<Rightarrow> None
      | Inr workflowScope \<Rightarrow>
          (case wss_WorkflowRunName workflowScope of
             None \<Rightarrow> None
           | Some n \<Rightarrow> if TrimSpace n \<noteq> [] then Some workflowScope else None))"

text \<open>
  \<open>QueryLogs\<close>.  The coercions \<open>AsWorkflowSearchScope\<close> and \<open>AsComponentSearchScope\<close> of the
  generated request type and the two methods of the client are parameters.
\<close>

definition QueryLogs ::
  "('u \<Rightarrow> string + WorkflowSearchScope) \<Rightarrow> ('u \<Rightarrow> string + ComponentSearchScope)
   \<Rightarrow> (WorkflowLogsParams \<Rightarrow> string + 'w) \<Rightarrow> (ComponentLogsParams \<Rightarrow> string + 'c)
   \<Rightarrow> 'u LogsQueryRequest option \<Rightarrow> ('w, 'c) QueryLogsResponse" where
  "QueryLogs AsWorkflow AsComponent clientGetWorkflowLogs clientGetComponentLogs body =
     (case body of
        None \<Rightarrow> QueryLogs400 ''request body is required''
      | Some req \<Rightarrow>
          (case selectedWorkflowScope (AsWorkflow (rq_SearchScope req)) of
             Some workflowScope \<Rightarrow>
               if TrimSpace (wss_Namespace workflowScope) = [] then
                 QueryLogs400 ''searchScope with a valid namespace is required''
               else
                 (case clientGetWorkflowLogs (toWorkflowLogsParams req workflowScope) of
                    Inl err \<Rightarrow> QueryLogs500 err
                  | Inr result \<Rightarrow> QueryLogs200Workflow result)
           | None \<Rightarrow>
               (case AsComponent (rq_SearchScope req) of
                  Inl err \<Rightarrow> QueryLogs400 ''searchScope with a valid namespace is required''
                | Inr scope \<Rightarrow>
                    if TrimSpace (css_Namespace scope) = [] then
                      QueryLogs400 ''searchScope with a valid namespace is required''
                    else
                      (case clientGetComponentLogs (toComponentLogsParams req scope) of
                         Inl err \<Rightarrow> QueryLogs500 err
                       | Inr result \<Rightarrow> QueryLogs200Component result))))"

text \<open>
  Modelled from the spec: the generated package \<open>gen\<close>, which declares the search scope
  union of a request and its two coercions, is not among the sources.  Following the data
  model of the specification (a component scope has a namespace and optional project,
  environment and component identifiers; a workflow scope has a namespace and a workflow run
  name), a search scope is modelled by the keys that its JSON object carries, and each
  coercion reads the keys of its shape and ignores the others.  These definitions are used
  for running \<open>QueryLogs\<close> on concrete requests only.
\<close>

record SearchScopeUnion =
  union_namespace :: string
  union_workflowRunName :: "string option"
  union_projectUid :: "string option"
  union_environmentUid :: "string option"
  union_componentUid :: "string option"

definition AsWorkflowSearchScope :: "SearchScopeUnion \<Rightarrow> string + WorkflowSearchScope" where
  "AsWorkflowSearchScope u =
     Inr \<lparr> wss_Namespace = union_namespace u, wss_WorkflowRunName = union_workflowRunName u \<rparr>"

definition AsComponentSearchScope :: "SearchScopeUnion \<Rightarrow> string + ComponentSearchScope" where
  "AsComponentSearchScope u =
     Inr \<lparr> css_Namespace = union_namespace u, css_ProjectUid = union_projectUid u,
           css_EnvironmentUid = union_environmentUid u,
           css_ComponentUid = union_componentUid u \<rparr>"

section \<open>The tracing module: trace reconstruction\<close>

text \<open>
  A hit is a JSON object decoded with \<open>UseNumber\<close> into \<open>map[string]interface{}\<close>.  Of a
  value the code only asks whether it is a string or a \<open>json.Number\<close>; of a number it only
  uses \<open>Int64()\<close> with the error dropped, so \<open>JNumber\<close> holds that 64-bit reading.
  \<open>asString\<close> and \<open>asNumber\<close> are the type assertions \<open>.(string)\<close> and \<open>.(json.Number)\<close>
  with their \<open>ok\<close>; \<open>stringOrEmpty\<close> is the assertion whose \<open>ok\<close> is dropped.
\<close>

datatype jvalue = JString string | JNumber "64 word" | JOther

type_synonym hit = "string \<Rightarrow> jvalue option"

definition asString :: "jvalue option \<Rightarrow> string option" where
  "asString v = (case v of Some (JString s) \<Rightarrow> Some s | _ \<Rightarrow> None)"

definition asNumber :: "jvalue option \<Rightarrow> 64 word option" where
  "asNumber v = (case v of Some (JNumber n) \<Rightarrow> Some n | _ \<Rightarrow> None)"

definition stringOrEmpty :: "jvalue option \<Rightarrow> string" where
  "stringOrEmpty v = (case asString v of Some s \<Rightarrow> s | None \<Rightarrow> [])"

text \<open>
  \<open>TraceEntry\<close> and the local struct \<open>traceAgg\<close> of \<open>GetTraces\<close>.  A \<open>time.Time\<close> made by
  \<open>time.Unix(0, n)\<close> is held as \<open>n\<close>.
\<close>

record TraceEntry =
  te_TraceID :: string
  te_TraceName :: string
  te_SpanCount :: int
  te_RootSpanID :: string
  te_RootSpanName :: string
  te_RootSpanKind :: string
  te_StartTime :: "64 word"
  te_EndTime :: "64 word"
  te_DurationNs :: "64 word"

record traceAgg =
  agg_entry :: TraceEntry
  agg_minStart :: "64 word"
  agg_maxEnd :: "64 word"

definition zeroTraceEntry :: TraceEntry where
  "zeroTraceEntry =
     \<lparr> te_TraceID = [], te_TraceName = [], te_SpanCount = 0, te_RootSpanID = [],
       te_RootSpanName = [], te_RootSpanKind = [], te_StartTime = 0, te_EndTime = 0,
       te_DurationNs = 0 \<rparr>"

definition newTraceAgg :: "string \<Rightarrow> traceAgg" where
  "newTraceAgg traceID =
     \<lparr> agg_entry = zeroTraceEntry\<lparr>te_TraceID := traceID\<rparr>, agg_minStart = 0, agg_maxEnd = 0 \<rparr>"

text \<open>
  The body of the loop over the hits, from \<open>agg.entry.SpanCount++\<close> on: what one hit does to
  the aggregate of its trace.  Comparisons of \<open>int64\<close> values are signed.
\<close>

definition GetTraces_aggregate :: "traceAgg \<Rightarrow> hit \<Rightarrow> traceAgg" where
  "GetTraces_aggregate agg0 hit =
     (let agg = agg0\<lparr>agg_entry := (agg_entry agg0)\<lparr>te_SpanCount := te_SpanCount (agg_entry agg0) + 1\<rparr>\<rparr>;
          agg = (case asNumber (hit ''start_time'') of
                   None \<Rightarrow> agg
                 | Some startTime \<Rightarrow>
                     if agg_minStart agg = 0 \<or> startTime <s agg_minStart agg
                     then agg\<lparr>agg_minStart := startTime\<rparr> else agg);
          agg = (case asNumber (hit ''end_time'') of
                   None \<Rightarrow> agg
                 | Some endTime \<Rightarrow>
                     if agg_maxEnd agg <s endTime
                     then agg\<lparr>agg_maxEnd := endTime\<rparr> else agg);
          parentSpanID = stringOrEmpty (hit ''reference_parent_span_id'')
      in if parentSpanID = [] then
           (let agg = (case asString (hit ''span_id'') of
                         None \<Rightarrow> agg
                       | Some v \<Rightarrow> agg\<lparr>agg_entry := (agg_entry agg)\<lparr>te_RootSpanID := v\<rparr>\<rparr>);
                agg = (case asString (hit ''operation_name'') of
                         None \<Rightarrow> agg
                       | Some v \<Rightarrow> agg\<lparr>agg_entry := (agg_entry agg)\<lparr>te_RootSpanName := v\<rparr>\<rparr>);
                agg = (case asString (hit ''span_kind'') of
                         None \<Rightarrow> agg
                       | Some v \<Rightarrow> agg\<lparr>agg_entry := (agg_entry agg)\<lparr>te_RootSpanKind := v\<rparr>\<rparr>)
            in agg)
         else agg)"

text \<open>
  One iteration of the loop on the pair of \<open>traceMap\<close> and \<open>traceOrder\<close>.  The map holds
  pointers in the source; here it holds the aggregates, and the iteration stores the updated
  one.
\<close>

definition GetTraces_hit ::
  "(string \<Rightarrow> traceAgg option) \<times> string list \<Rightarrow> hit \<Rightarrow> (string \<Rightarrow> traceAgg option) \<times> string list" where
  "GetTraces_hit state hit =
     (let traceMap = fst state; traceOrder = snd state;
          traceID = stringOrEmpty (hit ''trace_id'')
      in if traceID = [] then (traceMap, traceOrder)
         else
           (case traceMap traceID of
              None \<Rightarrow>
                ((traceMap(traceID \<mapsto> GetTraces_aggregate (newTraceAgg traceID) hit)),
                 traceOrder @ [traceID])
            | Some agg \<Rightarrow>
                ((traceMap(traceID \<mapsto> GetTraces_aggregate agg hit)), traceOrder)))"

text \<open>
  The second loop, over \<open>traceOrder\<close>: \<open>GetTraces_finish\<close> is its body.  Every identifier in
  \<open>traceOrder\<close> has an aggregate in \<open>traceMap\<close> (lemma \<open>traceMap_after_loop\<close> below).
\<close>

definition GetTraces_finish :: "traceAgg \<Rightarrow> TraceEntry" where
  "GetTraces_finish agg =
     (agg_entry agg)
       \<lparr> te_StartTime := agg_minStart agg,
         te_EndTime := agg_maxEnd agg,
         te_DurationNs := agg_maxEnd agg - agg_minStart agg,
         te_TraceName := te_RootSpanName (agg_entry agg) \<rparr>"

definition GetTraces_group :: "hit list \<Rightarrow> TraceEntry list" where
  "GetTraces_group hits =
     (let state = foldl GetTraces_hit (Map.empty, []) hits;
          traceMap = fst state; traceOrder = snd state
      in concat (map (\<lambda>traceID. case traceMap traceID of
                                    None \<Rightarrow> []
                                  | Some agg \<Rightarrow> [GetTraces_finish agg]) traceOrder))"

text \<open>\<open>GetTraces\<close>; the execution of the query is a parameter.\<close>

record TracesResult =
  tr_Traces :: "TraceEntry list"
  tr_Total :: int
  tr_TookMs :: int

definition GetTraces ::
  "string \<Rightarrow> (SearchQuery \<Rightarrow> string + hit OpenObserveResponse) \<Rightarrow> TracesQueryParams
     \<Rightarrow> string + TracesResult" where
  "GetTraces stream executeSearchQuery params =
     (case generateTracesListQuery params stream of
        Inl err \<Rightarrow> Inl (''failed to generate traces query: '' @ err)
      | Inr queryJSON \<Rightarrow>
          (case executeSearchQuery queryJSON of
             Inl err \<Rightarrow> Inl err
           | Inr openObserveResp \<Rightarrow>
               (let traces = GetTraces_group (Hits openObserveResp)
                in Inr \<lparr> tr_Traces = traces, tr_Total = int (length traces),
                         tr_TookMs = Took openObserveResp \<rparr>)))"

text \<open>
  Notions for stating what the reconstruction returns: the trace identifier of a hit as the
  loop reads it, the rows of a trace, the rows with an empty parent reference, the value of
  a column in the last row that carries it as a string, and the identifiers of a list of hits
  in the order of their first appearance.
\<close>

definition hitTraceID :: "hit \<Rightarrow> string" where
  "hitTraceID h = stringOrEmpty (h ''trace_id'')"

definition rowsOf :: "string \<Rightarrow> hit list \<Rightarrow> hit list" where
  "rowsOf t hits = filter (\<lambda>h. hitTraceID h = t) hits"

definition isRootRow :: "hit \<Rightarrow> bool" where
  "isRootRow h \<longleftrightarrow> stringOrEmpty (h ''reference_parent_span_id'') = []"

definition rootRows :: "string \<Rightarrow> hit list \<Rightarrow> hit list" where
  "rootRows t hits = filter isRootRow (rowsOf t hits)"

definition lastPresent :: "string \<Rightarrow> hit list \<Rightarrow> string" where
  "lastPresent k rows =
     (case rev (List.map_filter (\<lambda>h. asString (h k)) rows) of
        [] \<Rightarrow> []
      | v # _ \<Rightarrow> v)"

definition firstSeen :: "string list \<Rightarrow> string list" where
  "firstSeen xs = rev (remdups (rev xs))"

definition traceIDs :: "hit list \<Rightarrow> string list" where
  "traceIDs hits = firstSeen (filter (\<lambda>t. t \<noteq> []) (map hitTraceID hits))"

text \<open>The start times and the end times that the rows of a list carry as numbers.\<close>

definition startTimes :: "hit list \<Rightarrow> 64 word list" where
  "startTimes rows = List.map_filter (\<lambda>h. asNumber (h ''start_time'')) rows"

definition endTimes :: "hit list \<Rightarrow> 64 word list" where
  "endTimes rows = List.map_filter (\<lambda>h. asNumber (h ''end_time'')) rows"

section \<open>Texts built from fixed fragments and escaped values\<close>

text \<open>
  The invariant of the query builders is stated with \<open>builtFrom F s\<close>: the text \<open>s\<close> is a
  concatenation of pieces, each of them a member of \<open>F\<close>.  For a builder, \<open>F\<close> holds the
  string constants of the module's source, the stream name as the builder renders it, and
  the images under \<open>escapeSQLString\<close> of the request's string fields; nothing else.  A
  builder that put a field into the text unescaped would not satisfy the invariant for
  every request.
\<close>

inductive builtFrom :: "string set \<Rightarrow> string \<Rightarrow> bool" for F :: "string set" where
  Nil: "builtFrom F []"
| Piece: "p \<in> F \<Longrightarrow> builtFrom F s \<Longrightarrow> builtFrom F (p @ s)"

text \<open>The string constants of the SQL builders of the logs module.\<close>

definition logsStaticSQL :: "string list" where
  "logsStaticSQL =
     [''SELECT * FROM '', '' WHERE '', '' AND '', '' OR '', ''('', '')'', [squote],
      ''kubernetes_namespace_name = 'openchoreo-ci-'',
      ''kubernetes_labels_workflows_argoproj_io_workflow = '' @ [squote],
      ''kubernetes_labels_openchoreo_dev_namespace = '' @ [squote],
      ''kubernetes_labels_openchoreo_dev_project_uid = '' @ [squote],
      ''kubernetes_labels_openchoreo_dev_environment_uid = '' @ [squote],
      ''kubernetes_labels_openchoreo_dev_component_uid = '' @ [squote],
      ''log LIKE '%'', ''%'' @ [squote], ''logLevel = '' @ [squote],
      '' ORDER BY _timestamp ASC'', '' ORDER BY _timestamp DESC'',
      ''SELECT count(*) as '', ''match_count'', '' FROM '',
      '' WHERE str_match(log, '' @ [squote], [squote] @ '')'']"

text \<open>The string constants of the SQL builders of the tracing module.\<close>

definition tracingStaticSQL :: "string list" where
  "tracingStaticSQL =
     [''SELECT trace_id, span_id, operation_name, span_kind, '',
      ''start_time, end_time, reference_parent_span_id '', ''FROM '',
      ''SELECT span_id, operation_name, span_kind, start_time, end_time, '',
      ''end_time - start_time as duration, reference_parent_span_id '',
      ''SELECT * FROM '', '' WHERE '', '' AND '', [squote],
      ''service_openchoreo_dev_namespace = '' @ [squote],
      ''service_openchoreo_dev_project_uid = '' @ [squote],
      ''service_openchoreo_dev_environment_uid = '' @ [squote],
      ''service_openchoreo_dev_component_uid = '' @ [squote],
      ''trace_id = '' @ [squote], ''span_id = '' @ [squote],
      '' ORDER BY start_time'', '' ORDER BY start_time ASC'', '' ORDER BY start_time DESC'']"

text \<open>
  The pieces allowed for each builder.  The logs module quotes the stream name; the tracing
  module does not.
\<close>

definition componentLogsPieces :: "ComponentLogsParams \<Rightarrow> string \<Rightarrow> string set" where
  "componentLogsPieces params stream =
     set logsStaticSQL \<union> {quoteIdentifier stream}
     \<union> escapeSQLString `
         ({cl_Namespace params, cl_ProjectID params, cl_EnvironmentID params,
           cl_SearchPhrase params}
          \<union> set (cl_ComponentIDs params) \<union> set (cl_LogLevels params))"

definition workflowLogsPieces :: "WorkflowLogsParams \<Rightarrow> string \<Rightarrow> string set" where
  "workflowLogsPieces params stream =
     set logsStaticSQL \<union> {quoteIdentifier stream}
     \<union> escapeSQLString `
         ({wl_Namespace params, wl_WorkflowRunName params, wl_SearchPhrase params}
          \<union> set (wl_LogLevels params))"

definition alertPieces :: "'f LogAlertParams \<Rightarrow> string \<Rightarrow> string set" where
  "alertPieces params stream =
     set logsStaticSQL \<union> {quoteIdentifier stream}
     \<union> escapeSQLString ` {la_SearchPattern params}"

definition tracingPieces :: "TracesQueryParams \<Rightarrow> string \<Rightarrow> string set" where
  "tracingPieces params stream =
     set tracingStaticSQL \<union> {stream}
     \<union> escapeSQLString `
         {sc_Namespace (tq_Scope params), sc_ProjectID (tq_Scope params),
          sc_EnvironmentID (tq_Scope params), sc_ComponentID (tq_Scope params),
          tq_TraceID params, tq_SpanID params}"

section \<open>Reference notions and sample requests\<close>


text \<open>Sample parameter values, used where a property is run on a concrete request.\<close>

definition exampleWorkflowLogsParams :: "string \<Rightarrow> WorkflowLogsParams" where
  "exampleWorkflowLogsParams sortOrder =
     \<lparr> wl_Namespace = ''acme'', wl_WorkflowRunName = ''build-1'', wl_StartTime = 1000,
       wl_EndTime = 2000, wl_SearchPhrase = [], wl_LogLevels = [], wl_Limit = 25,
       wl_SortOrder = sortOrder \<rparr>"

definition exampleComponentLogsParams :: "string \<Rightarrow> string \<Rightarrow> ComponentLogsParams" where
  "exampleComponentLogsParams ns sortOrder =
     \<lparr> cl_Namespace = ns, cl_ComponentIDs = [''c-1''], cl_EnvironmentID = ''e-1'',
       cl_ProjectID = ''p-1'', cl_StartTime = 1000, cl_EndTime = 2000,
       cl_SearchPhrase = ''error'', cl_LogLevels = [''ERROR'', ''WARN''], cl_Limit = 0,
       cl_SortOrder = sortOrder \<rparr>"

text \<open>
  \<open>strconv.Quote\<close> on a string of printable ASCII characters other than the double quote
  and the backslash puts it between double quotes; \<open>plainQuote\<close> is used for such sample
  values only.
\<close>

definition plainQuote :: "string \<Rightarrow> string" where
  "plainQuote s = [dquote] @ s @ [dquote]"

definition exampleLogAlertParams :: "int LogAlertParams" where
  "exampleLogAlertParams =
     \<lparr> la_Name = Some ''too-many-errors'', la_Namespace = ''acme'', la_ProjectUID = ''p-1'',
       la_EnvironmentUID = ''e-1'', la_ComponentUID = ''c-1'', la_SearchPattern = ''can't'',
       la_Operator = ''gte'', la_ThresholdValue = 5, la_Window = ''5m'',
       la_Interval = ''1m'' \<rparr>"

definition exampleTracesQueryParams :: TracesQueryParams where
  "exampleTracesQueryParams =
     \<lparr> tq_StartTime = 1000, tq_EndTime = 2000, tq_Limit = 0, tq_Sort = ''asc'',
       tq_Scope = \<lparr> sc_Namespace = ''acme'', sc_ProjectID = ''p-1'', sc_ComponentID = [],
                    sc_EnvironmentID = ''e-1'' \<rparr>,
       tq_TraceID = ''t-1'', tq_SpanID = ''s-1'' \<rparr>"

text \<open>A backend that answers every search with status 500 and a body of its own.\<close>

definition exampleFailingBackend :: "SearchQuery \<Rightarrow> http_outcome" where
  "exampleFailingBackend q = Response 500 ''stream default not found in org acme''"

text \<open>A decoder of the alert list that yields the one entry of the specification's example.\<close>

definition exampleUnmarshalAlertList :: "string \<Rightarrow> string + AlertListEntry list" where
  "exampleUnmarshalAlertList body = Inr [\<lparr> ale_AlertID = ''x1'', ale_Name = ''foo'' \<rparr>]"

definition exampleLogsQueryRequest :: "string \<Rightarrow> string option \<Rightarrow> SearchScopeUnion LogsQueryRequest" where
  "exampleLogsQueryRequest ns run =
     \<lparr> rq_SearchScope = \<lparr> union_namespace = ns, union_workflowRunName = run,
                           union_projectUid = Some ''p-1'', union_environmentUid = Some ''e-1'',
                           union_componentUid = Some ''c-1'' \<rparr>,
       rq_StartTime = 1000, rq_EndTime = 2000, rq_Limit = Some 25, rq_SortOrder = Some ''asc'',
       rq_SearchPhrase = Some ''error'', rq_LogLevels = Some [''ERROR''] \<rparr>"

text \<open>Sample hits: a row of a span, without and with its times.\<close>

definition spanRow :: "string \<Rightarrow> string \<Rightarrow> string \<Rightarrow> hit" where
  "spanRow traceID spanID parent =
     [''trace_id'' \<mapsto> JString traceID, ''span_id'' \<mapsto> JString spanID,
      ''reference_parent_span_id'' \<mapsto> JString parent]"

definition timedSpanRow :: "string \<Rightarrow> string \<Rightarrow> string \<Rightarrow> 64 word \<Rightarrow> 64 word \<Rightarrow> hit" where
  "timedSpanRow traceID spanID parent startTime endTime =
     (spanRow traceID spanID parent)
       (''start_time'' \<mapsto> JNumber startTime, ''end_time'' \<mapsto> JNumber endTime)"

definition twoRootRows :: "hit list" where
  "twoRootRows = [spanRow ''T1'' ''A'' [], spanRow ''T1'' ''B'' []]"

definition namedRootThenBareRoot :: "hit list" where
  "namedRootThenBareRoot =
     [(spanRow ''T1'' ''A'' [])(''operation_name'' \<mapsto> JString ''GET /''),
      spanRow ''T1'' ''B'' []]"

definition zeroStartRows :: "hit list" where
  "zeroStartRows = [timedSpanRow ''T1'' ''A'' [] 0 10, timedSpanRow ''T1'' ''B'' ''A'' 5 20]"

section \<open>Properties of the escaping primitives\<close>

lemma escapeSQLString_Nil: "escapeSQLString [] = []"
  by (simp add: escapeSQLString_def)

lemma escapeSQLString_Cons:
  "escapeSQLString (c # s) =
     (if c = backslash then [backslash, backslash]
      else if c = squote then [squote, squote] else [c]) @ escapeSQLString s"
  by (simp add: escapeSQLString_def backslash_def squote_def)

text \<open>
  Reading an escaped value back: whatever follows the closing quote, as long as it is not
  another quote, the reference reader returns the value and stops right after the closing
  quote.
\<close>

lemma literalBody_escapeSQLString:
  "rest = [] \<or> hd rest \<noteq> squote \<Longrightarrow>
   literalBody (escapeSQLString s @ squote # rest) = Some (s, rest)"
proof (induction s)
  case Nil
  then show ?case
    by (cases rest) (simp_all add: escapeSQLString_Nil squote_def backslash_def)
next
  case (Cons c s)
  then show ?case
    by (simp add: escapeSQLString_Cons squote_def backslash_def)
qed

text \<open>
  Claim C2.  \<open>escapeSQLString\<close> doubles every backslash first and every single quote
  second; the result, put between single quotes and read by the reference reader of
  literals, is the original string, for every string; and the five characters
  \<open>a ' b \ c\<close> become the seven characters \<open>a ' ' b \ \ c\<close>.
\<close>

theorem escapeSQLString_roundtrip:
  "escapeSQLString s
     = ReplaceAll (ReplaceAll s backslash [backslash, backslash]) squote [squote, squote]
   \<and> unescapeLiteral ([squote] @ escapeSQLString s @ [squote]) = Some s
   \<and> escapeSQLString [CHR ''a'', squote, CHR ''b'', backslash, CHR ''c'']
       = [CHR ''a'', squote, squote, CHR ''b'', backslash, backslash, CHR ''c'']"
proof (intro conjI)
  show "escapeSQLString s
     = ReplaceAll (ReplaceAll s backslash [backslash, backslash]) squote [squote, squote]"
    by (simp add: escapeSQLString_def)
next
  have "literalBody (escapeSQLString s @ squote # []) = Some (s, [])"
    by (rule literalBody_escapeSQLString) simp
  then show "unescapeLiteral ([squote] @ escapeSQLString s @ [squote]) = Some s"
    by (simp add: unescapeLiteral_def)
next
  show "escapeSQLString [CHR ''a'', squote, CHR ''b'', backslash, CHR ''c'']
       = [CHR ''a'', squote, squote, CHR ''b'', backslash, backslash, CHR ''c'']"
    by (simp add: escapeSQLString_def squote_def backslash_def)
qed

section \<open>The namespace predicate of workflow log queries\<close>

lemma Join_Cons: "Join (c # cs) sep = c @ concat (map (\<lambda>x. sep @ x) cs)"
  by (induction cs arbitrary: c) simp_all

lemma workflowLogsConditions_Namespace:
  "ns \<noteq> [] \<Longrightarrow>
   workflowLogsConditions (params\<lparr>wl_Namespace := ns\<rparr>) =
     (''kubernetes_namespace_name = 'openchoreo-ci-'' @ escapeSQLString ns @ [squote])
     # workflowLogsConditions (params\<lparr>wl_Namespace := []\<rparr>)"
  by (simp add: workflowLogsConditions_def Let_def)

lemma literalBody_prefix_ci:
  "literalBody (''openchoreo-ci-'' @ t)
     = map_option (\<lambda>(v, r). (''openchoreo-ci-'' @ v, r)) (literalBody t)"
  by (cases "literalBody t") (auto simp add: backslash_def squote_def)

lemma orderByTimestamp_hd: "hd (orderByTimestamp s) = CHR '' ''"
  by (simp add: orderByTimestamp_def)

text \<open>
  Claim C10.  Whatever the other fields of a workflow logs request are, there is a text
  \<open>rest\<close>, the same for every namespace, such that for every non-empty namespace the SQL
  is \<open>SELECT * FROM <quoted stream> WHERE kubernetes_namespace_name = 'openchoreo-ci-<escaped
  namespace>'\<close> followed by \<open>rest\<close>: the namespace enters the text in this one predicate only,
  always behind the fixed prefix, and the literal of the predicate denotes the prefix
  followed by the caller's namespace.
\<close>

theorem workflow_namespace_prefixed:
  "\<exists>rest. \<forall>ns. ns \<noteq> [] \<longrightarrow>
     map_sum id q_sql (generateWorkflowLogsQuery (params\<lparr>wl_Namespace := ns\<rparr>) stream)
       = Inr (''SELECT * FROM '' @ quoteIdentifier stream
              @ '' WHERE kubernetes_namespace_name = '' @ [squote] @ ''openchoreo-ci-''
              @ escapeSQLString ns @ [squote] @ rest)
     \<and> literalBody (''openchoreo-ci-'' @ escapeSQLString ns @ [squote] @ rest)
         = Some (''openchoreo-ci-'' @ ns, rest)"
proof -
  let ?others = "workflowLogsConditions (params\<lparr>wl_Namespace := []\<rparr>)"
  let ?rest = "concat (map (\<lambda>x. '' AND '' @ x) ?others) @ orderByTimestamp (wl_SortOrder params)"
  have rest: "?rest = [] \<or> hd ?rest \<noteq> squote"
    by (cases ?others) (simp_all add: orderByTimestamp_hd squote_def)
  have "\<forall>ns. ns \<noteq> [] \<longrightarrow>
     map_sum id q_sql (generateWorkflowLogsQuery (params\<lparr>wl_Namespace := ns\<rparr>) stream)
       = Inr (''SELECT * FROM '' @ quoteIdentifier stream
              @ '' WHERE kubernetes_namespace_name = '' @ [squote] @ ''openchoreo-ci-''
              @ escapeSQLString ns @ [squote] @ ?rest)
     \<and> literalBody (''openchoreo-ci-'' @ escapeSQLString ns @ [squote] @ ?rest)
         = Some (''openchoreo-ci-'' @ ns, ?rest)"
  proof (intro allI impI conjI)
    fix ns :: string
    assume "ns \<noteq> []"
    then show "map_sum id q_sql (generateWorkflowLogsQuery (params\<lparr>wl_Namespace := ns\<rparr>) stream)
       = Inr (''SELECT * FROM '' @ quoteIdentifier stream
              @ '' WHERE kubernetes_namespace_name = '' @ [squote] @ ''openchoreo-ci-''
              @ escapeSQLString ns @ [squote] @ ?rest)"
      by (simp add: generateWorkflowLogsQuery_def workflowLogsConditions_Namespace Join_Cons
          Let_def squote_def)
  next
    fix ns :: string
    have "literalBody (escapeSQLString ns @ squote # ?rest) = Some (ns, ?rest)"
      using rest by (rule literalBody_escapeSQLString)
    then show "literalBody (''openchoreo-ci-'' @ escapeSQLString ns @ [squote] @ ?rest)
         = Some (''openchoreo-ci-'' @ ns, ?rest)"
      using literalBody_prefix_ci [of "escapeSQLString ns @ squote # ?rest"] by simp
  qed
  then show ?thesis by blast
qed

theorem workflow_namespace_prefixed_witness:
  "\<exists>rest.
     map_sum id q_sql (generateWorkflowLogsQuery
        \<lparr> wl_Namespace = ''acme'', wl_WorkflowRunName = ''build-1'', wl_StartTime = 0,
          wl_EndTime = 10, wl_SearchPhrase = [], wl_LogLevels = [], wl_Limit = 0,
          wl_SortOrder = [] \<rparr> ''default'')
       = Inr (''SELECT * FROM '' @ quoteIdentifier ''default''
              @ '' WHERE kubernetes_namespace_name = '' @ [squote] @ ''openchoreo-ci-''
              @ escapeSQLString ''acme'' @ [squote] @ rest)
     \<and> literalBody (''openchoreo-ci-'' @ escapeSQLString ''acme'' @ [squote] @ rest)
         = Some (''openchoreo-ci-acme'', rest)"
proof -
  obtain rest where r: "\<forall>ns. ns \<noteq> [] \<longrightarrow>
     map_sum id q_sql (generateWorkflowLogsQuery
        (\<lparr> wl_Namespace = ''acme'', wl_WorkflowRunName = ''build-1'', wl_StartTime = 0,
          wl_EndTime = 10, wl_SearchPhrase = [], wl_LogLevels = [], wl_Limit = 0,
          wl_SortOrder = [] \<rparr>\<lparr>wl_Namespace := ns\<rparr>) ''default'')
       = Inr (''SELECT * FROM '' @ quoteIdentifier ''default''
              @ '' WHERE kubernetes_namespace_name = '' @ [squote] @ ''openchoreo-ci-''
              @ escapeSQLString ns @ [squote] @ rest)
     \<and> literalBody (''openchoreo-ci-'' @ escapeSQLString ns @ [squote] @ rest)
         = Some (''openchoreo-ci-'' @ ns, rest)"
    using workflow_namespace_prefixed
      [of "\<lparr> wl_Namespace = ''acme'', wl_WorkflowRunName = ''build-1'', wl_StartTime = 0,
          wl_EndTime = 10, wl_SearchPhrase = [], wl_LogLevels = [], wl_Limit = 0,
          wl_SortOrder = [] \<rparr>" "''default''"] by blast
  have "''acme'' \<noteq> []" by simp
  with r show ?thesis
    by (intro exI [of _ rest]) (auto dest!: spec [of _ "''acme''"])
qed

section \<open>The order clause\<close>





section \<open>Query texts are built from fixed fragments and escaped values\<close>

lemma builtFrom_single: "p \<in> F \<Longrightarrow> builtFrom F p"
  using builtFrom.Piece [of p F "[]"] by (simp add: builtFrom.Nil)

lemma builtFrom_append: "builtFrom F a \<Longrightarrow> builtFrom F b \<Longrightarrow> builtFrom F (a @ b)"
proof (induction rule: builtFrom.induct)
  case Nil
  then show ?case by simp
next
  case (Piece p s)
  then show ?case using builtFrom.Piece [of p F "s @ b"] by simp
qed

lemma builtFrom_Join:
  "(\<And>x. x \<in> set xs \<Longrightarrow> builtFrom F x) \<Longrightarrow> sep \<in> F \<Longrightarrow> builtFrom F (Join xs sep)"
proof (induction xs sep rule: Join.induct)
  case (1 sep)
  then show ?case by (simp add: builtFrom.Nil)
next
  case (2 x sep)
  then show ?case by simp
next
  case (3 x y ys sep)
  have "builtFrom F x" using 3 by simp
  moreover have "builtFrom F sep" using 3 by (simp add: builtFrom_single)
  moreover have "builtFrom F (Join (y # ys) sep)" using 3 by simp
  ultimately show ?case by (simp add: builtFrom_append)
qed

lemma builtFrom_cond:
  "a \<in> F \<Longrightarrow> escapeSQLString v \<in> F \<Longrightarrow> b \<in> F \<Longrightarrow> builtFrom F (a @ escapeSQLString v @ b)"
  by (intro builtFrom_append builtFrom_single)

lemma builtFrom_group:
  "(\<And>x. x \<in> set xs \<Longrightarrow> builtFrom F x) \<Longrightarrow> ''('' \<in> F \<Longrightarrow> '' OR '' \<in> F \<Longrightarrow> '')'' \<in> F
   \<Longrightarrow> builtFrom F (''('' @ Join xs '' OR '' @ '')'')"
proof -
  assume a: "\<And>x. x \<in> set xs \<Longrightarrow> builtFrom F x" and b: "''('' \<in> F" "'' OR '' \<in> F" "'')'' \<in> F"
  have "builtFrom F (Join xs '' OR '')" using a b(2) by (rule builtFrom_Join)
  then show ?thesis
    using b by (intro builtFrom_append) (simp_all add: builtFrom_single)
qed

lemma builtFrom_levelConditions:
  assumes "x \<in> set (levelConditions ls)"
    and "''logLevel = '' @ [squote] \<in> F" and "[squote] \<in> F"
    and "escapeSQLString ` set ls \<subseteq> F"
  shows "builtFrom F x"
proof -
  from assms(1) obtain l where "l \<in> set ls" and "x = (''logLevel = '' @ [squote]) @ escapeSQLString l @ [squote]"
    by (auto simp add: levelConditions_def)
  with assms show ?thesis
    using builtFrom_cond [of "''logLevel = '' @ [squote]" F l "[squote]"] by auto
qed

lemma builtFrom_componentConditions:
  assumes "x \<in> set (componentConditions ls)"
    and "''kubernetes_labels_openchoreo_dev_component_uid = '' @ [squote] \<in> F" and "[squote] \<in> F"
    and "escapeSQLString ` set ls \<subseteq> F"
  shows "builtFrom F x"
proof -
  from assms(1) obtain l where "l \<in> set ls"
    and "x = (''kubernetes_labels_openchoreo_dev_component_uid = '' @ [squote]) @ escapeSQLString l @ [squote]"
    by (auto simp add: componentConditions_def)
  with assms show ?thesis
    using builtFrom_cond [of "''kubernetes_labels_openchoreo_dev_component_uid = '' @ [squote]" F l "[squote]"] by auto
qed

lemma workflowLogsConditions_built:
  assumes "x \<in> set (workflowLogsConditions params)"
  shows "builtFrom (workflowLogsPieces params stream) x"
proof -
  let ?F = "workflowLogsPieces params stream"
  have st: "set logsStaticSQL \<subseteq> ?F" by (auto simp add: workflowLogsPieces_def)
  have q: "[squote] \<in> ?F" "''('' \<in> ?F" "'')'' \<in> ?F" "'' OR '' \<in> ?F"
    "''logLevel = '' @ [squote] \<in> ?F"
    "''kubernetes_namespace_name = 'openchoreo-ci-'' \<in> ?F"
    "''kubernetes_labels_workflows_argoproj_io_workflow = '' @ [squote] \<in> ?F"
    "''log LIKE '%'' \<in> ?F" "''%'' @ [squote] \<in> ?F"
    using st by (auto simp add: logsStaticSQL_def)
  have e: "escapeSQLString (wl_Namespace params) \<in> ?F"
    "escapeSQLString (wl_WorkflowRunName params) \<in> ?F"
    "escapeSQLString (wl_SearchPhrase params) \<in> ?F"
    "escapeSQLString ` set (wl_LogLevels params) \<subseteq> ?F"
    by (auto simp add: workflowLogsPieces_def)
  have lv: "builtFrom ?F (''('' @ Join (levelConditions (wl_LogLevels params)) '' OR '' @ '')'')"
  proof (rule builtFrom_group)
    fix x assume "x \<in> set (levelConditions (wl_LogLevels params))"
    then show "builtFrom ?F x" by (rule builtFrom_levelConditions) (rule q e)+
  qed (rule q)+
  have c1: "builtFrom ?F (''kubernetes_namespace_name = 'openchoreo-ci-''
                              @ escapeSQLString (wl_Namespace params) @ [squote])"
    by (rule builtFrom_cond) (rule q e)+
  have c2: "builtFrom ?F ((''kubernetes_labels_workflows_argoproj_io_workflow = '' @ [squote])
                              @ escapeSQLString (wl_WorkflowRunName params) @ [squote])"
    by (rule builtFrom_cond) (rule q e)+
  have c3: "builtFrom ?F (''log LIKE '%'' @ escapeSQLString (wl_SearchPhrase params)
                              @ (''%'' @ [squote]))"
    by (rule builtFrom_cond) (rule q e)+
  from assms have "x = ''kubernetes_namespace_name = 'openchoreo-ci-''
                              @ escapeSQLString (wl_Namespace params) @ [squote]
     \<or> x = (''kubernetes_labels_workflows_argoproj_io_workflow = '' @ [squote])
                              @ escapeSQLString (wl_WorkflowRunName params) @ [squote]
     \<or> x = ''log LIKE '%'' @ escapeSQLString (wl_SearchPhrase params)
                              @ (''%'' @ [squote])
     \<or> x = ''('' @ Join (levelConditions (wl_LogLevels params)) '' OR '' @ '')''"
    by (auto simp add: workflowLogsConditions_def Let_def split: if_splits)
  then show ?thesis
  proof (elim disjE)
    assume h: "x = ''kubernetes_namespace_name = 'openchoreo-ci-''
                              @ escapeSQLString (wl_Namespace params) @ [squote]"
    show ?thesis unfolding h by (fact c1)
  next
    assume h: "x = (''kubernetes_labels_workflows_argoproj_io_workflow = '' @ [squote])
                              @ escapeSQLString (wl_WorkflowRunName params) @ [squote]"
    show ?thesis unfolding h by (fact c2)
  next
    assume h: "x = ''log LIKE '%'' @ escapeSQLString (wl_SearchPhrase params)
                              @ (''%'' @ [squote])"
    show ?thesis unfolding h by (fact c3)
  next
    assume h: "x = ''('' @ Join (levelConditions (wl_LogLevels params)) '' OR '' @ '')''"
    show ?thesis unfolding h by (fact lv)
  qed
qed

lemma componentLogsConditions_built:
  assumes "x \<in> set (componentLogsConditions params)"
  shows "builtFrom (componentLogsPieces params stream) x"
proof -
  let ?F = "componentLogsPieces params stream"
  have st: "set logsStaticSQL \<subseteq> ?F" by (auto simp add: componentLogsPieces_def)
  have q: "[squote] \<in> ?F" "''('' \<in> ?F" "'')'' \<in> ?F" "'' OR '' \<in> ?F"
    "''logLevel = '' @ [squote] \<in> ?F"
    "''kubernetes_labels_openchoreo_dev_namespace = '' @ [squote] \<in> ?F"
    "''kubernetes_labels_openchoreo_dev_project_uid = '' @ [squote] \<in> ?F"
    "''kubernetes_labels_openchoreo_dev_environment_uid = '' @ [squote] \<in> ?F"
    "''kubernetes_labels_openchoreo_dev_component_uid = '' @ [squote] \<in> ?F"
    "''log LIKE '%'' \<in> ?F" "''%'' @ [squote] \<in> ?F"
    using st by (auto simp add: logsStaticSQL_def)
  have e: "escapeSQLString (cl_Namespace params) \<in> ?F"
    "escapeSQLString (cl_ProjectID params) \<in> ?F"
    "escapeSQLString (cl_EnvironmentID params) \<in> ?F"
    "escapeSQLString (cl_SearchPhrase params) \<in> ?F"
    "escapeSQLString ` set (cl_LogLevels params) \<subseteq> ?F"
    "escapeSQLString ` set (cl_ComponentIDs params) \<subseteq> ?F"
    by (auto simp add: componentLogsPieces_def)
  have lv: "builtFrom ?F (''('' @ Join (levelConditions (cl_LogLevels params)) '' OR '' @ '')'')"
  proof (rule builtFrom_group)
    fix x assume "x \<in> set (levelConditions (cl_LogLevels params))"
    then show "builtFrom ?F x" by (rule builtFrom_levelConditions) (rule q e)+
  qed (rule q)+
  have cm: "builtFrom ?F (''('' @ Join (componentConditions (cl_ComponentIDs params)) '' OR '' @ '')'')"
  proof (rule builtFrom_group)
    fix x assume "x \<in> set (componentConditions (cl_ComponentIDs params))"
    then show "builtFrom ?F x" by (rule builtFrom_componentConditions) (rule q e)+
  qed (rule q)+
  have c1: "builtFrom ?F ((''kubernetes_labels_openchoreo_dev_namespace = '' @ [squote])
                              @ escapeSQLString (cl_Namespace params) @ [squote])"
    by (rule builtFrom_cond) (rule q e)+
  have c2: "builtFrom ?F ((''kubernetes_labels_openchoreo_dev_project_uid = '' @ [squote])
                              @ escapeSQLString (cl_ProjectID params) @ [squote])"
    by (rule builtFrom_cond) (rule q e)+
  have c3: "builtFrom ?F ((''kubernetes_labels_openchoreo_dev_environment_uid = '' @ [squote])
                              @ escapeSQLString (cl_EnvironmentID params) @ [squote])"
    by (rule builtFrom_cond) (rule q e)+
  have c4: "builtFrom ?F (''log LIKE '%'' @ escapeSQLString (cl_SearchPhrase params)
                              @ (''%'' @ [squote]))"
    by (rule builtFrom_cond) (rule q e)+
  from assms have "x = (''kubernetes_labels_openchoreo_dev_namespace = '' @ [squote])
                              @ escapeSQLString (cl_Namespace params) @ [squote]
     \<or> x = (''kubernetes_labels_openchoreo_dev_project_uid = '' @ [squote])
                              @ escapeSQLString (cl_ProjectID params) @ [squote]
     \<or> x = (''kubernetes_labels_openchoreo_dev_environment_uid = '' @ [squote])
                              @ escapeSQLString (cl_EnvironmentID params) @ [squote]
     \<or> x = ''log LIKE '%'' @ escapeSQLString (cl_SearchPhrase params)
                              @ (''%'' @ [squote])
     \<or> x = ''('' @ Join (levelConditions (cl_LogLevels params)) '' OR '' @ '')''
     \<or> x = ''('' @ Join (componentConditions (cl_ComponentIDs params)) '' OR '' @ '')''"
    by (auto simp add: componentLogsConditions_def Let_def split: if_splits)
  then show ?thesis
  proof (elim disjE)
    assume h: "x = (''kubernetes_labels_openchoreo_dev_namespace = '' @ [squote])
                              @ escapeSQLString (cl_Namespace params) @ [squote]"
    show ?thesis unfolding h by (fact c1)
  next
    assume h: "x = (''kubernetes_labels_openchoreo_dev_project_uid = '' @ [squote])
                              @ escapeSQLString (cl_ProjectID params) @ [squote]"
    show ?thesis unfolding h by (fact c2)
  next
    assume h: "x = (''kubernetes_labels_openchoreo_dev_environment_uid = '' @ [squote])
                              @ escapeSQLString (cl_EnvironmentID params) @ [squote]"
    show ?thesis unfolding h by (fact c3)
  next
    assume h: "x = ''log LIKE '%'' @ escapeSQLString (cl_SearchPhrase params)
                              @ (''%'' @ [squote])"
    show ?thesis unfolding h by (fact c4)
  next
    assume h: "x = ''('' @ Join (levelConditions (cl_LogLevels params)) '' OR '' @ '')''"
    show ?thesis unfolding h by (fact lv)
  next
    assume h: "x = ''('' @ Join (componentConditions (cl_ComponentIDs params)) '' OR '' @ '')''"
    show ?thesis unfolding h by (fact cm)
  qed
qed

lemma buildFilterConditions_built:
  assumes "x \<in> set (buildFilterConditions params)"
  shows "builtFrom (tracingPieces params stream) x"
proof -
  let ?F = "tracingPieces params stream"
  have st: "set tracingStaticSQL \<subseteq> ?F" by (auto simp add: tracingPieces_def)
  have "[squote] \<in> set tracingStaticSQL"
    "''service_openchoreo_dev_namespace = '' @ [squote] \<in> set tracingStaticSQL"
    "''service_openchoreo_dev_project_uid = '' @ [squote] \<in> set tracingStaticSQL"
    "''service_openchoreo_dev_environment_uid = '' @ [squote] \<in> set tracingStaticSQL"
    "''service_openchoreo_dev_component_uid = '' @ [squote] \<in> set tracingStaticSQL"
    by (simp_all add: tracingStaticSQL_def)
  then have q: "[squote] \<in> ?F"
    "''service_openchoreo_dev_namespace = '' @ [squote] \<in> ?F"
    "''service_openchoreo_dev_project_uid = '' @ [squote] \<in> ?F"
    "''service_openchoreo_dev_environment_uid = '' @ [squote] \<in> ?F"
    "''service_openchoreo_dev_component_uid = '' @ [squote] \<in> ?F"
    using st by blast+
  have e: "escapeSQLString (sc_Namespace (tq_Scope params)) \<in> ?F"
    "escapeSQLString (sc_ProjectID (tq_Scope params)) \<in> ?F"
    "escapeSQLString (sc_EnvironmentID (tq_Scope params)) \<in> ?F"
    "escapeSQLString (sc_ComponentID (tq_Scope params)) \<in> ?F"
    by (auto simp add: tracingPieces_def)
  have c1: "builtFrom ?F ((''service_openchoreo_dev_namespace = '' @ [squote])
                              @ escapeSQLString (sc_Namespace (tq_Scope params)) @ [squote])"
    by (rule builtFrom_cond) (rule q e)+
  have c2: "builtFrom ?F ((''service_openchoreo_dev_project_uid = '' @ [squote])
                              @ escapeSQLString (sc_ProjectID (tq_Scope params)) @ [squote])"
    by (rule builtFrom_cond) (rule q e)+
  have c3: "builtFrom ?F ((''service_openchoreo_dev_environment_uid = '' @ [squote])
                              @ escapeSQLString (sc_EnvironmentID (tq_Scope params)) @ [squote])"
    by (rule builtFrom_cond) (rule q e)+
  have c4: "builtFrom ?F ((''service_openchoreo_dev_component_uid = '' @ [squote])
                              @ escapeSQLString (sc_ComponentID (tq_Scope params)) @ [squote])"
    by (rule builtFrom_cond) (rule q e)+
  from assms have "x = (''service_openchoreo_dev_namespace = '' @ [squote])
                              @ escapeSQLString (sc_Namespace (tq_Scope params)) @ [squote]
     \<or> x = (''service_openchoreo_dev_project_uid = '' @ [squote])
                              @ escapeSQLString (sc_ProjectID (tq_Scope params)) @ [squote]
     \<or> x = (''service_openchoreo_dev_environment_uid = '' @ [squote])
                              @ escapeSQLString (sc_EnvironmentID (tq_Scope params)) @ [squote]
     \<or> x = (''service_openchoreo_dev_component_uid = '' @ [squote])
                              @ escapeSQLString (sc_ComponentID (tq_Scope params)) @ [squote]"
    by (auto simp add: buildFilterConditions_def Let_def split: if_splits)
  then show ?thesis
  proof (elim disjE)
    assume h: "x = (''service_openchoreo_dev_namespace = '' @ [squote])
                              @ escapeSQLString (sc_Namespace (tq_Scope params)) @ [squote]"
    show ?thesis unfolding h by (fact c1)
  next
    assume h: "x = (''service_openchoreo_dev_project_uid = '' @ [squote])
                              @ escapeSQLString (sc_ProjectID (tq_Scope params)) @ [squote]"
    show ?thesis unfolding h by (fact c2)
  next
    assume h: "x = (''service_openchoreo_dev_environment_uid = '' @ [squote])
                              @ escapeSQLString (sc_EnvironmentID (tq_Scope params)) @ [squote]"
    show ?thesis unfolding h by (fact c3)
  next
    assume h: "x = (''service_openchoreo_dev_component_uid = '' @ [squote])
                              @ escapeSQLString (sc_ComponentID (tq_Scope params)) @ [squote]"
    show ?thesis unfolding h by (fact c4)
  qed
qed

lemma builtFrom_where:
  assumes cs: "\<And>x. x \<in> set cs \<Longrightarrow> builtFrom F x"
    and w: "'' WHERE '' \<in> F" and an: "'' AND '' \<in> F"
    and a: "builtFrom F a" and b: "builtFrom F b"
  shows "builtFrom F ((if cs \<noteq> [] then a @ '' WHERE '' @ Join cs '' AND '' else a) @ b)"
proof (cases "cs = []")
  case True
  then show ?thesis using a b by (simp add: builtFrom_append)
next
  case False
  have j: "builtFrom F (Join cs '' AND '')" using cs an by (rule builtFrom_Join)
  have "builtFrom F ((a @ '' WHERE '' @ Join cs '' AND '') @ b)"
    by (intro builtFrom_append a b j builtFrom_single w)
  with False show ?thesis by (simp only: if_True not_False_eq_True)
qed

lemma orderByTimestamp_built:
  "'' ORDER BY _timestamp ASC'' \<in> F \<Longrightarrow> '' ORDER BY _timestamp DESC'' \<in> F
   \<Longrightarrow> builtFrom F (orderByTimestamp s)"
  by (simp only: orderByTimestamp_def builtFrom_single if_split) blast

lemma generateWorkflowLogsQuery_built:
  "\<exists>q. generateWorkflowLogsQuery params stream = Inr q
       \<and> builtFrom (workflowLogsPieces params stream) (q_sql q)"
proof -
  let ?F = "workflowLogsPieces params stream"
  let ?sel = "''SELECT * FROM '' @ quoteIdentifier stream"
  let ?E = "(if workflowLogsConditions params \<noteq> []
          then ?sel @ '' WHERE '' @ Join (workflowLogsConditions params) '' AND ''
          else ?sel)
        @ orderByTimestamp (wl_SortOrder params)"
  have q: "''SELECT * FROM '' \<in> ?F" "'' WHERE '' \<in> ?F" "'' AND '' \<in> ?F"
    "'' ORDER BY _timestamp ASC'' \<in> ?F" "'' ORDER BY _timestamp DESC'' \<in> ?F"
    "quoteIdentifier stream \<in> ?F"
    by (auto simp add: workflowLogsPieces_def logsStaticSQL_def)
  have a: "builtFrom ?F ?sel"
    by (intro builtFrom_append builtFrom_single q)
  have o: "builtFrom ?F (orderByTimestamp (wl_SortOrder params))"
    by (rule orderByTimestamp_built) (rule q)+
  have built: "builtFrom ?F ?E"
    using workflowLogsConditions_built q(2,3) a o by (rule builtFrom_where)
  obtain q where r: "generateWorkflowLogsQuery params stream = Inr q" and e: "q_sql q = ?E"
    by (simp add: generateWorkflowLogsQuery_def Let_def)
  have "builtFrom ?F (q_sql q)" unfolding e by (fact built)
  with r show ?thesis by blast
qed

lemma generateComponentLogsQuery_built:
  "case generateComponentLogsQuery params stream of
     Inl err \<Rightarrow> cl_Namespace params = []
   | Inr q \<Rightarrow> builtFrom (componentLogsPieces params stream) (q_sql q)"
proof (cases "cl_Namespace params = []")
  case True
  then show ?thesis by (simp add: generateComponentLogsQuery_def)
next
  case False
  let ?F = "componentLogsPieces params stream"
  let ?sel = "''SELECT * FROM '' @ quoteIdentifier stream"
  let ?E = "(if componentLogsConditions params \<noteq> []
          then ?sel @ '' WHERE '' @ Join (componentLogsConditions params) '' AND ''
          else ?sel)
        @ orderByTimestamp (cl_SortOrder params)"
  have q: "''SELECT * FROM '' \<in> ?F" "'' WHERE '' \<in> ?F" "'' AND '' \<in> ?F"
    "'' ORDER BY _timestamp ASC'' \<in> ?F" "'' ORDER BY _timestamp DESC'' \<in> ?F"
    "quoteIdentifier stream \<in> ?F"
    by (auto simp add: componentLogsPieces_def logsStaticSQL_def)
  have a: "builtFrom ?F ?sel"
    by (intro builtFrom_append builtFrom_single q)
  have o: "builtFrom ?F (orderByTimestamp (cl_SortOrder params))"
    by (rule orderByTimestamp_built) (rule q)+
  have built: "builtFrom ?F ?E"
    using componentLogsConditions_built q(2,3) a o by (rule builtFrom_where)
  obtain q where r: "generateComponentLogsQuery params stream = Inr q" and e: "q_sql q = ?E"
    using False by (simp add: generateComponentLogsQuery_def Let_def)
  have "builtFrom ?F (q_sql q)" unfolding e by (fact built)
  with r show ?thesis by simp
qed

lemma generateTracesListQuery_built:
  "\<exists>q. generateTracesListQuery params stream = Inr q
       \<and> builtFrom (tracingPieces params stream) (q_sql q)"
proof -
  let ?F = "tracingPieces params stream"
  let ?sel = "''SELECT trace_id, span_id, operation_name, span_kind, ''
                @ ''start_time, end_time, reference_parent_span_id ''
                @ ''FROM '' @ stream"
  let ?E = "(if buildFilterConditions params \<noteq> []
          then ?sel @ '' WHERE '' @ Join (buildFilterConditions params) '' AND ''
          else ?sel)
        @ '' ORDER BY start_time''"
  have q: "''SELECT trace_id, span_id, operation_name, span_kind, '' \<in> ?F"
    "''start_time, end_time, reference_parent_span_id '' \<in> ?F" "''FROM '' \<in> ?F"
    "'' WHERE '' \<in> ?F" "'' AND '' \<in> ?F" "'' ORDER BY start_time'' \<in> ?F" "stream \<in> ?F"
    by (auto simp add: tracingPieces_def tracingStaticSQL_def)
  have a: "builtFrom ?F ?sel"
    by (intro builtFrom_append builtFrom_single q)
  have o: "builtFrom ?F '' ORDER BY start_time''"
    by (rule builtFrom_single) (rule q)
  have built: "builtFrom ?F ?E"
    using buildFilterConditions_built q(4,5) a o by (rule builtFrom_where)
  obtain q where r: "generateTracesListQuery params stream = Inr q" and e: "q_sql q = ?E"
    by (simp add: generateTracesListQuery_def Let_def)
  have "builtFrom ?F (q_sql q)" unfolding e by (fact built)
  with r show ?thesis by blast
qed

lemma generateSpansListQuery_built:
  "\<exists>q. generateSpansListQuery params stream = Inr q
       \<and> builtFrom (tracingPieces params stream) (q_sql q)"
proof -
  let ?F = "tracingPieces params stream"
  let ?ord = "if tq_Sort params = ''asc'' \<or> tq_Sort params = ''ASC''
              then '' ORDER BY start_time ASC'' else '' ORDER BY start_time DESC''"
  let ?E = "''SELECT span_id, operation_name, span_kind, start_time, end_time, ''
                @ ''end_time - start_time as duration, reference_parent_span_id ''
                @ ''FROM '' @ stream @ '' WHERE '' @ (''trace_id = '' @ [squote])
                @ escapeSQLString (tq_TraceID params) @ [squote] @ ?ord"
  have q: "''SELECT span_id, operation_name, span_kind, start_time, end_time, '' \<in> ?F"
    "''end_time - start_time as duration, reference_parent_span_id '' \<in> ?F" "''FROM '' \<in> ?F"
    "'' WHERE '' \<in> ?F" "''trace_id = '' @ [squote] \<in> ?F" "[squote] \<in> ?F"
    "stream \<in> ?F" "escapeSQLString (tq_TraceID params) \<in> ?F"
    by (auto simp add: tracingPieces_def tracingStaticSQL_def)
  have o: "?ord \<in> ?F"
    by (auto simp add: tracingPieces_def tracingStaticSQL_def)
  have built: "builtFrom ?F ?E"
    by (intro builtFrom_append builtFrom_single q o)
  obtain q where r: "generateSpansListQuery params stream = Inr q" and e: "q_sql q = ?E"
    by (simp add: generateSpansListQuery_def Let_def)
  have "builtFrom ?F (q_sql q)" unfolding e by (fact built)
  with r show ?thesis by blast
qed

lemma generateSpanDetailQuery_built:
  "\<exists>q. generateSpanDetailQuery params stream = Inr q
       \<and> builtFrom (tracingPieces params stream) (q_sql q)"
proof -
  let ?F = "tracingPieces params stream"
  let ?E = "''SELECT * FROM '' @ stream @ '' WHERE '' @ (''trace_id = '' @ [squote])
                @ escapeSQLString (tq_TraceID params) @ [squote] @ '' AND ''
                @ (''span_id = '' @ [squote]) @ escapeSQLString (tq_SpanID params) @ [squote]"
  have q: "''SELECT * FROM '' \<in> ?F" "'' AND '' \<in> ?F"
    "'' WHERE '' \<in> ?F" "''trace_id = '' @ [squote] \<in> ?F" "''span_id = '' @ [squote] \<in> ?F"
    "[squote] \<in> ?F" "stream \<in> ?F"
    "escapeSQLString (tq_TraceID params) \<in> ?F" "escapeSQLString (tq_SpanID params) \<in> ?F"
    by (auto simp add: tracingPieces_def tracingStaticSQL_def)
  have built: "builtFrom ?F ?E"
    by (intro builtFrom_append builtFrom_single q)
  obtain q where r: "generateSpanDetailQuery params stream = Inr q" and e: "q_sql q = ?E"
    by (simp add: generateSpanDetailQuery_def Let_def)
  have "builtFrom ?F (q_sql q)" unfolding e by (fact built)
  with r show ?thesis by blast
qed

lemma generateAlertConfig_built:
  "case generateAlertConfig Quote params stream of
     Inl err \<Rightarrow> (\<exists>e. mapOperator Quote (la_Operator params) = Inl e)
   | Inr c \<Rightarrow> builtFrom (alertPieces params stream) (ac_query c)"
proof (cases "mapOperator Quote (la_Operator params)")
  case (Inl e)
  then show ?thesis by (simp add: generateAlertConfig_def Let_def)
next
  case (Inr sqlOperator)
  let ?F = "alertPieces params stream"
  let ?E = "''SELECT count(*) as '' @ ''match_count'' @ '' FROM ''
                  @ quoteIdentifier stream @ ('' WHERE str_match(log, '' @ [squote])
                  @ escapeSQLString (la_SearchPattern params) @ ([squote] @ '')'')"
  have q: "''SELECT count(*) as '' \<in> ?F" "''match_count'' \<in> ?F" "'' FROM '' \<in> ?F"
    "'' WHERE str_match(log, '' @ [squote] \<in> ?F" "[squote] @ '')'' \<in> ?F"
    "quoteIdentifier stream \<in> ?F" "escapeSQLString (la_SearchPattern params) \<in> ?F"
    by (auto simp add: alertPieces_def logsStaticSQL_def)
  have built: "builtFrom ?F ?E"
    by (intro builtFrom_append builtFrom_single q)
  obtain c where r: "generateAlertConfig Quote params stream = Inr c" and e: "ac_query c = ?E"
    using Inr by (simp add: generateAlertConfig_def Let_def)
  have "builtFrom ?F (ac_query c)" unfolding e by (fact built)
  with r show ?thesis by simp
qed

text \<open>
  Claim C1.  For each of the six builders (component logs, workflow logs, traces list, spans
  list, span detail, alert configuration) the SQL text of the result is a concatenation of
  pieces, each of which is a string constant of the module, the stream name as the builder
  renders it (quoted by \<open>quoteIdentifier\<close> in the logs module, as configured in the tracing
  module), or \<open>escapeSQLString\<close> applied to a field of the request.  So a namespace, a
  project, environment or component identifier, a search phrase, a log level, a workflow run
  name, a trace or span identifier or an alert search pattern reaches the text only as the
  image of the escaping function.  The builders that cannot fail return a query; the
  component logs builder fails only on an empty namespace and the alert builder only on an
  operator that \<open>mapOperator\<close> refuses.
\<close>

theorem query_text_built_from_escaped_values:
  "(case generateComponentLogsQuery cp stream of
      Inl err \<Rightarrow> cl_Namespace cp = []
    | Inr q \<Rightarrow> builtFrom (componentLogsPieces cp stream) (q_sql q))
   \<and> (\<exists>q. generateWorkflowLogsQuery wp stream = Inr q
          \<and> builtFrom (workflowLogsPieces wp stream) (q_sql q))
   \<and> (\<exists>q. generateTracesListQuery tp tstream = Inr q
          \<and> builtFrom (tracingPieces tp tstream) (q_sql q))
   \<and> (\<exists>q. generateSpansListQuery tp tstream = Inr q
          \<and> builtFrom (tracingPieces tp tstream) (q_sql q))
   \<and> (\<exists>q. generateSpanDetailQuery tp tstream = Inr q
          \<and> builtFrom (tracingPieces tp tstream) (q_sql q))
   \<and> (case generateAlertConfig Quote ap stream of
        Inl err \<Rightarrow> (\<exists>e. mapOperator Quote (la_Operator ap) = Inl e)
      | Inr c \<Rightarrow> builtFrom (alertPieces ap stream) (ac_query c))"
  by (intro conjI generateComponentLogsQuery_built generateWorkflowLogsQuery_built
      generateTracesListQuery_built generateSpansListQuery_built generateSpanDetailQuery_built
      generateAlertConfig_built)

theorem query_text_built_from_escaped_values_witness:
  "(\<exists>q. generateComponentLogsQuery (exampleComponentLogsParams ''acme'' ''asc'') ''default'' = Inr q
        \<and> builtFrom (componentLogsPieces (exampleComponentLogsParams ''acme'' ''asc'') ''default'')
             (q_sql q))
   \<and> (\<exists>q. generateWorkflowLogsQuery (exampleWorkflowLogsParams ''asc'') ''default'' = Inr q
        \<and> builtFrom (workflowLogsPieces (exampleWorkflowLogsParams ''asc'') ''default'') (q_sql q))
   \<and> (\<exists>q. generateTracesListQuery exampleTracesQueryParams ''default'' = Inr q
        \<and> builtFrom (tracingPieces exampleTracesQueryParams ''default'') (q_sql q))
   \<and> (\<exists>q. generateSpansListQuery exampleTracesQueryParams ''default'' = Inr q
        \<and> builtFrom (tracingPieces exampleTracesQueryParams ''default'') (q_sql q))
   \<and> (\<exists>q. generateSpanDetailQuery exampleTracesQueryParams ''default'' = Inr q
        \<and> builtFrom (tracingPieces exampleTracesQueryParams ''default'') (q_sql q))
   \<and> (\<exists>c. generateAlertConfig plainQuote exampleLogAlertParams ''default'' = Inr c
        \<and> builtFrom (alertPieces exampleLogAlertParams ''default'') (ac_query c))"
proof -
  note t = query_text_built_from_escaped_values
    [of "exampleComponentLogsParams ''acme'' ''asc''" "''default''"
        "exampleWorkflowLogsParams ''asc''" exampleTracesQueryParams "''default''"
        plainQuote exampleLogAlertParams]
  have c: "\<exists>q. generateComponentLogsQuery (exampleComponentLogsParams ''acme'' ''asc'') ''default'' = Inr q"
    by (simp add: generateComponentLogsQuery_def exampleComponentLogsParams_def Let_def)
  have a: "\<exists>c. generateAlertConfig plainQuote exampleLogAlertParams ''default'' = Inr c"
    by (simp add: generateAlertConfig_def mapOperator_def exampleLogAlertParams_def Let_def)
  from t c a show ?thesis
    by (auto split: sum.splits)
qed

section \<open>Errors of the search execution\<close>

lemma itoa_500: "itoa 500 = ''500''"
  by code_simp

text \<open>
  The tracing module keeps the body of a failed response out of the error it returns: the
  error text is fixed by the status code alone, and the body goes to the log record.
\<close>

lemma tracing_executeSearchQuery_omits_body:
  "backend q = Response statusCode body \<Longrightarrow> statusCode \<noteq> 200 \<Longrightarrow>
   tracing_executeSearchQuery Decode backend q =
     ([\<lparr> log_msg = ''OpenObserve returned error'',
         log_attrs = [(''statusCode'', itoa statusCode), (''body'', body)] \<rparr>],
      Inl (''openobserve returned status '' @ itoa statusCode @ '': response body omitted''))"
  by (simp add: tracing_executeSearchQuery_def)

text \<open>
  Claim C3.  The claim holds for the tracing module and fails for the logs module, whose
  \<open>executeSearchQuery\<close> appends the body to the error it returns.  On a response with
  status 500 the logs client returns the backend's body inside the error text, where the
  tracing client returns the status code only.
\<close>

theorem logs_executeSearchQuery_echoes_body:
  "snd (logs_executeSearchQuery Unmarshal exampleFailingBackend q)
     = Inl ''openobserve returned status 500: stream default not found in org acme''
   \<and> snd (tracing_executeSearchQuery Decode exampleFailingBackend q)
     = Inl ''openobserve returned status 500: response body omitted''"
  by (simp add: logs_executeSearchQuery_def tracing_executeSearchQuery_def
      exampleFailingBackend_def itoa_500)

section \<open>Resolving an alert by name\<close>

lemma getAlertIDByName_loop_find:
  "getAlertIDByName_loop Quote list name =
     (case find (\<lambda>a. ale_Name a = name) list of
        Some a \<Rightarrow> Inr (ale_AlertID a)
      | None \<Rightarrow> Inl (''alert '' @ Quote name @ '' not found''))"
  by (induction list) simp_all

text \<open>
  Claim C9.  When the list of alerts was fetched and decoded, the lookup returns the
  \<open>alert_id\<close> of the first entry whose name equals the given name, and fails with the error
  \<open>alert <quoted name> not found\<close> when there is none.  That error is returned in this case
  only: every other failure of the lookup (request, transport, reading the body, a status
  other than 200, decoding) returns a different error.
\<close>

theorem getAlertIDByName_first_match:
  "(Unmarshal body = Inr list \<longrightarrow>
      getAlertIDByName Quote Unmarshal (Response 200 body) name =
        (case find (\<lambda>a. ale_Name a = name) list of
           Some a \<Rightarrow> Inr (ale_AlertID a)
         | None \<Rightarrow> Inl (''alert '' @ Quote name @ '' not found'')))
   \<and> (getAlertIDByName Quote Unmarshal outcome name = Inl (''alert '' @ Quote name @ '' not found'')
        \<longleftrightarrow> (\<exists>body list. outcome = Response 200 body \<and> Unmarshal body = Inr list
               \<and> find (\<lambda>a. ale_Name a = name) list = None))"
proof (intro conjI impI)
  assume "Unmarshal body = Inr list"
  then show "getAlertIDByName Quote Unmarshal (Response 200 body) name =
        (case find (\<lambda>a. ale_Name a = name) list of
           Some a \<Rightarrow> Inr (ale_AlertID a)
         | None \<Rightarrow> Inl (''alert '' @ Quote name @ '' not found''))"
    by (simp add: getAlertIDByName_def getAlertIDByName_loop_find)
next
  show "getAlertIDByName Quote Unmarshal outcome name = Inl (''alert '' @ Quote name @ '' not found'')
        \<longleftrightarrow> (\<exists>body list. outcome = Response 200 body \<and> Unmarshal body = Inr list
               \<and> find (\<lambda>a. ale_Name a = name) list = None)"
    by (cases outcome)
       (auto simp add: getAlertIDByName_def getAlertIDByName_loop_find
             split: sum.splits option.splits)
qed

text \<open>The example of the specification: \<open>foo\<close> resolves to \<open>x1\<close>, \<open>bar\<close> is not found.\<close>

theorem getAlertIDByName_first_match_witness:
  "getAlertIDByName plainQuote exampleUnmarshalAlertList (Response 200 []) ''foo'' = Inr ''x1''
   \<and> getAlertIDByName plainQuote exampleUnmarshalAlertList (Response 200 []) ''bar''
       = Inl (''alert '' @ [dquote] @ ''bar'' @ [dquote] @ '' not found'')"
  using getAlertIDByName_first_match
          [of exampleUnmarshalAlertList "[]" "[\<lparr> ale_AlertID = ''x1'', ale_Name = ''foo'' \<rparr>]"
              plainQuote "''foo''" "Response 200 []"]
        getAlertIDByName_first_match
          [of exampleUnmarshalAlertList "[]" "[\<lparr> ale_AlertID = ''x1'', ale_Name = ''foo'' \<rparr>]"
              plainQuote "''bar''" "Response 200 []"]
  by (simp add: exampleUnmarshalAlertList_def plainQuote_def)

section \<open>The scope dispatch of the logs handler\<close>

lemma TrimSpace_examples:
  "TrimSpace ''acme'' = ''acme''" "TrimSpace ''build-1'' = ''build-1''"
  "TrimSpace ''  '' = []" "TrimSpace [] = []"
  by code_simp+

text \<open>
  Claim C4, as the code has it.  \<open>QueryLogs\<close> has no test for an ambiguous scope.  A request
  whose scope coerces to the workflow shape with a \<open>workflowRunName\<close> that is not blank is
  handled as a workflow request, whatever the coercion to the component shape gives and
  whatever component fields the scope carries: it is rejected with status 400 only when its
  namespace is blank, and otherwise its parameters go to \<open>GetWorkflowLogs\<close>, whose error
  becomes a 500 response and whose result a 200 response.
\<close>

theorem QueryLogs_workflow_first:
  "AsWorkflow (rq_SearchScope req) = Inr workflowScope \<Longrightarrow>
   wss_WorkflowRunName workflowScope = Some n \<Longrightarrow> TrimSpace n \<noteq> [] \<Longrightarrow>
   QueryLogs AsWorkflow AsComponent clientGetWorkflowLogs clientGetComponentLogs (Some req) =
     (if TrimSpace (wss_Namespace workflowScope) = [] then
        QueryLogs400 ''searchScope with a valid namespace is required''
      else
        (case clientGetWorkflowLogs (toWorkflowLogsParams req workflowScope) of
           Inl err \<Rightarrow> QueryLogs500 err
         | Inr result \<Rightarrow> QueryLogs200Workflow result))"
  by (simp add: QueryLogs_def selectedWorkflowScope_def)

theorem QueryLogs_workflow_first_witness:
  "QueryLogs AsWorkflowSearchScope AsComponentSearchScope
     (GetWorkflowLogs ''default'' Inr id) (GetComponentLogs ''default'' Inr id)
     (Some (exampleLogsQueryRequest ''  '' (Some ''build-1'')))
   = QueryLogs400 ''searchScope with a valid namespace is required''
   \<and> QueryLogs AsWorkflowSearchScope AsComponentSearchScope
     (GetWorkflowLogs ''ci'' Inr q_sql) (GetComponentLogs ''ci'' Inr q_sql)
     (Some (exampleLogsQueryRequest ''team-a'' (Some ''build-1'')))
   = QueryLogs200Workflow
       (''SELECT * FROM '' @ [dquote] @ ''ci'' @ [dquote]
                  @ '' WHERE kubernetes_namespace_name = 'openchoreo-ci-team-a' AND ''
                  @ ''kubernetes_labels_workflows_argoproj_io_workflow = 'build-1' AND ''
                  @ ''log LIKE '%error%' AND (logLevel = 'ERROR') ORDER BY _timestamp ASC'')"
proof -
  have a: "AsWorkflowSearchScope (rq_SearchScope (exampleLogsQueryRequest ns (Some ''build-1'')))
      = Inr \<lparr> wss_Namespace = ns, wss_WorkflowRunName = Some ''build-1'' \<rparr>" for ns
    by (simp add: AsWorkflowSearchScope_def exampleLogsQueryRequest_def)
  have b: "TrimSpace ''build-1'' \<noteq> []" by (simp add: TrimSpace_examples)
  have c: "TrimSpace ''team-a'' \<noteq> []" by code_simp
  have d: "GetWorkflowLogs ''ci'' Inr q_sql
             (toWorkflowLogsParams (exampleLogsQueryRequest ''team-a'' (Some ''build-1''))
                \<lparr> wss_Namespace = ''team-a'', wss_WorkflowRunName = Some ''build-1'' \<rparr>)
      = Inr (''SELECT * FROM '' @ [dquote] @ ''ci'' @ [dquote]
                  @ '' WHERE kubernetes_namespace_name = 'openchoreo-ci-team-a' AND ''
                  @ ''kubernetes_labels_workflows_argoproj_io_workflow = 'build-1' AND ''
                  @ ''log LIKE '%error%' AND (logLevel = 'ERROR') ORDER BY _timestamp ASC'')"
    by (simp add: exampleLogsQueryRequest_def GetWorkflowLogs_def toWorkflowLogsParams_def
      generateWorkflowLogsQuery_def workflowLogsConditions_def levelConditions_def
      quoteIdentifier_def escapeSQLString_def orderByTimestamp_def
      defaultLimit_def Let_def dquote_def squote_def backslash_def)
  show ?thesis
    using QueryLogs_workflow_first [where AsWorkflow = AsWorkflowSearchScope
                and req = "exampleLogsQueryRequest ''  '' (Some ''build-1'')"
                and workflowScope = "\<lparr> wss_Namespace = ''  '', wss_WorkflowRunName = Some ''build-1'' \<rparr>"
                and n = "''build-1''" and AsComponent = AsComponentSearchScope
                and clientGetWorkflowLogs = "GetWorkflowLogs ''default'' Inr id"
                and clientGetComponentLogs = "GetComponentLogs ''default'' Inr id"]
          QueryLogs_workflow_first [where AsWorkflow = AsWorkflowSearchScope
                and req = "exampleLogsQueryRequest ''team-a'' (Some ''build-1'')"
                and workflowScope = "\<lparr> wss_Namespace = ''team-a'', wss_WorkflowRunName = Some ''build-1'' \<rparr>"
                and n = "''build-1''" and AsComponent = AsComponentSearchScope
                and clientGetWorkflowLogs = "GetWorkflowLogs ''ci'' Inr q_sql"
                and clientGetComponentLogs = "GetComponentLogs ''ci'' Inr q_sql"]
    by (simp add: a b c d TrimSpace_examples)
qed

text \<open>
  The claim as the specification words it fails: a scope that carries a workflow run name
  together with project, environment and component identifiers is not rejected; it is
  compiled under the workflow scope, and the component identifiers are dropped.
\<close>

theorem QueryLogs_ambiguous_scope_counterexample:
  "QueryLogs AsWorkflowSearchScope AsComponentSearchScope
     (GetWorkflowLogs ''default'' Inr id) (GetComponentLogs ''default'' Inr id)
     (Some (exampleLogsQueryRequest ''acme'' (Some ''build-1'')))
   = QueryLogs200Workflow
       \<lparr> q_sql = ''SELECT * FROM '' @ [dquote] @ ''default'' @ [dquote]
                  @ '' WHERE kubernetes_namespace_name = 'openchoreo-ci-acme' AND ''
                  @ ''kubernetes_labels_workflows_argoproj_io_workflow = 'build-1' AND ''
                  @ ''log LIKE '%error%' AND (logLevel = 'ERROR') ORDER BY _timestamp ASC'',
         q_start_time = 1000, q_end_time = 2000, q_from = 0, q_size = 25,
         q_timeout = Some 0 \<rparr>"
  by (simp add: QueryLogs_def selectedWorkflowScope_def AsWorkflowSearchScope_def
      exampleLogsQueryRequest_def TrimSpace_examples GetWorkflowLogs_def toWorkflowLogsParams_def
      generateWorkflowLogsQuery_def workflowLogsConditions_def levelConditions_def
      quoteIdentifier_def escapeSQLString_def orderByTimestamp_def
      defaultLimit_def Let_def dquote_def squote_def backslash_def)



section \<open>Trace reconstruction\<close>

lemma firstSeen_snoc:
  "firstSeen (xs @ [x]) = (if x \<in> set xs then firstSeen xs else firstSeen xs @ [x])"
  by (simp add: firstSeen_def)

lemma firstSeen_Nil: "firstSeen [] = []"
  by (simp add: firstSeen_def)

lemma set_firstSeen: "set (firstSeen xs) = set xs"
  by (simp add: firstSeen_def)

lemma distinct_firstSeen: "distinct (firstSeen xs)"
  by (simp add: firstSeen_def)

lemma GetTraces_hit_skip:
  "hitTraceID h = [] \<Longrightarrow> GetTraces_hit st h = st"
  by (simp add: GetTraces_hit_def hitTraceID_def Let_def)

lemma fst_GetTraces_hit:
  "hitTraceID h \<noteq> [] \<Longrightarrow>
   fst (GetTraces_hit st h) =
     (fst st)(hitTraceID h \<mapsto>
        GetTraces_aggregate (case fst st (hitTraceID h) of
                               None \<Rightarrow> newTraceAgg (hitTraceID h) | Some agg \<Rightarrow> agg) h)"
  by (simp add: GetTraces_hit_def hitTraceID_def Let_def split: option.splits)

lemma snd_GetTraces_hit:
  "hitTraceID h \<noteq> [] \<Longrightarrow>
   snd (GetTraces_hit st h) =
     (case fst st (hitTraceID h) of
        None \<Rightarrow> snd st @ [hitTraceID h] | Some agg \<Rightarrow> snd st)"
  by (simp add: GetTraces_hit_def hitTraceID_def Let_def split: option.splits)

lemma traceMap_after_loop:
  "fst (foldl GetTraces_hit (Map.empty, []) hits) t =
     (if t \<noteq> [] \<and> rowsOf t hits \<noteq> []
      then Some (foldl GetTraces_aggregate (newTraceAgg t) (rowsOf t hits))
      else None)"
proof (induction hits arbitrary: t rule: rev_induct)
  case Nil
  then show ?case by (simp add: rowsOf_def)
next
  case (snoc h hits)
  show ?case
  proof (cases "hitTraceID h = []")
    case True
    then show ?thesis
      using snoc by (auto simp add: GetTraces_hit_skip rowsOf_def)
  next
    case False
    show ?thesis
    proof (cases "t = hitTraceID h")
      case True
      then show ?thesis
        using False snoc [of "hitTraceID h"]
        by (simp add: fst_GetTraces_hit rowsOf_def)
    next
      case False
      then show ?thesis
        using \<open>hitTraceID h \<noteq> []\<close> snoc [of t]
        by (simp add: fst_GetTraces_hit rowsOf_def)
    qed
  qed
qed

lemma rowsOf_empty_iff: "rowsOf t hits = [] \<longleftrightarrow> t \<notin> set (map hitTraceID hits)"
  by (auto simp add: rowsOf_def filter_empty_conv)

lemma traceOrder_after_loop:
  "snd (foldl GetTraces_hit (Map.empty, []) hits) = traceIDs hits"
proof (induction hits rule: rev_induct)
  case Nil
  then show ?case by (simp add: traceIDs_def firstSeen_Nil)
next
  case (snoc h hits)
  show ?case
  proof (cases "hitTraceID h = []")
    case True
    then show ?thesis
      using snoc by (simp add: GetTraces_hit_skip traceIDs_def)
  next
    case False
    then show ?thesis
      using snoc
      by (auto simp add: snd_GetTraces_hit traceMap_after_loop rowsOf_empty_iff traceIDs_def
          firstSeen_snoc)
  qed
qed

lemma set_traceIDs: "set (traceIDs hits) = {t. t \<noteq> [] \<and> t \<in> hitTraceID ` set hits}"
  by (auto simp add: traceIDs_def set_firstSeen)

lemma distinct_traceIDs: "distinct (traceIDs hits)"
  by (simp add: traceIDs_def distinct_firstSeen)

text \<open>The grouping pass, characterised.\<close>

lemma GetTraces_group_eq:
  "GetTraces_group hits =
     map (\<lambda>t. GetTraces_finish (foldl GetTraces_aggregate (newTraceAgg t) (rowsOf t hits)))
         (traceIDs hits)"
proof -
  have "\<And>t. t \<in> set (traceIDs hits) \<Longrightarrow>
     fst (foldl GetTraces_hit (Map.empty, []) hits) t
       = Some (foldl GetTraces_aggregate (newTraceAgg t) (rowsOf t hits))"
    by (auto simp add: traceMap_after_loop set_traceIDs rowsOf_empty_iff)
  then have "concat (map (\<lambda>traceID. case fst (foldl GetTraces_hit (Map.empty, []) hits) traceID of
                                    None \<Rightarrow> []
                                  | Some agg \<Rightarrow> [GetTraces_finish agg]) (traceIDs hits))
     = concat (map (\<lambda>t. [GetTraces_finish (foldl GetTraces_aggregate (newTraceAgg t) (rowsOf t hits))])
         (traceIDs hits))"
    by (intro arg_cong [where f = concat] map_cong) simp_all
  also have "\<dots> = map (\<lambda>t. GetTraces_finish (foldl GetTraces_aggregate (newTraceAgg t) (rowsOf t hits)))
         (traceIDs hits)"
    by (induction "traceIDs hits") simp_all
  finally show ?thesis
    by (simp add: GetTraces_group_def Let_def traceOrder_after_loop)
qed

lemma aggregate_TraceID:
  "te_TraceID (agg_entry (GetTraces_aggregate a h)) = te_TraceID (agg_entry a)"
  by (simp add: GetTraces_aggregate_def Let_def split: option.splits)

lemma aggregate_SpanCount:
  "te_SpanCount (agg_entry (GetTraces_aggregate a h)) = te_SpanCount (agg_entry a) + 1"
  by (simp add: GetTraces_aggregate_def Let_def split: option.splits)

lemma aggregate_RootSpanID:
  "te_RootSpanID (agg_entry (GetTraces_aggregate a h)) =
     (if isRootRow h then (case asString (h ''span_id'') of
                             Some v \<Rightarrow> v | None \<Rightarrow> te_RootSpanID (agg_entry a))
      else te_RootSpanID (agg_entry a))"
  by (simp add: GetTraces_aggregate_def isRootRow_def Let_def split: option.splits)

lemma aggregate_RootSpanName:
  "te_RootSpanName (agg_entry (GetTraces_aggregate a h)) =
     (if isRootRow h then (case asString (h ''operation_name'') of
                             Some v \<Rightarrow> v | None \<Rightarrow> te_RootSpanName (agg_entry a))
      else te_RootSpanName (agg_entry a))"
  by (simp add: GetTraces_aggregate_def isRootRow_def Let_def split: option.splits)

lemma aggregate_RootSpanKind:
  "te_RootSpanKind (agg_entry (GetTraces_aggregate a h)) =
     (if isRootRow h then (case asString (h ''span_kind'') of
                             Some v \<Rightarrow> v | None \<Rightarrow> te_RootSpanKind (agg_entry a))
      else te_RootSpanKind (agg_entry a))"
  by (simp add: GetTraces_aggregate_def isRootRow_def Let_def split: option.splits)

lemma foldl_aggregate_TraceID:
  "te_TraceID (agg_entry (foldl GetTraces_aggregate a rows)) = te_TraceID (agg_entry a)"
  by (induction rows rule: rev_induct) (simp_all add: aggregate_TraceID)

lemma foldl_aggregate_SpanCount:
  "te_SpanCount (agg_entry (foldl GetTraces_aggregate a rows))
     = te_SpanCount (agg_entry a) + int (length rows)"
  by (induction rows rule: rev_induct) (simp_all add: aggregate_SpanCount)

lemma foldl_aggregate_last_present:
  assumes step: "\<And>a h. get (GetTraces_aggregate a h) =
     (if isRootRow h then (case asString (h k) of Some v \<Rightarrow> v | None \<Rightarrow> get a) else get a)"
  shows "get (foldl GetTraces_aggregate a rows) =
     (case rev (List.map_filter (\<lambda>h. asString (h k)) (filter isRootRow rows)) of
        [] \<Rightarrow> get a
      | v # _ \<Rightarrow> v)"
proof (induction rows rule: rev_induct)
  case Nil
  then show ?case by (simp add: List.map_filter_def)
next
  case (snoc h rows)
  then show ?case
    by (cases "asString (h k)") (simp_all add: step List.map_filter_def)
qed

lemma lastPresent_last:
  "rows \<noteq> [] \<Longrightarrow> asString (last rows k) = Some v \<Longrightarrow> lastPresent k rows = v"
  by (induction rows rule: rev_induct) (simp_all add: lastPresent_def List.map_filter_def)

lemma filter_eq_single:
  "distinct xs \<Longrightarrow> t \<in> set xs \<Longrightarrow> filter (\<lambda>x. x = t) xs = [t]"
  by (induction xs) (auto simp add: filter_empty_conv)

lemma GetTraces_group_entry:
  assumes "t \<noteq> []" and "t \<in> hitTraceID ` set hits"
  shows "filter (\<lambda>e. te_TraceID e = t) (GetTraces_group hits)
    = [GetTraces_finish (foldl GetTraces_aggregate (newTraceAgg t) (rowsOf t hits))]"
proof -
  let ?F = "\<lambda>t. GetTraces_finish (foldl GetTraces_aggregate (newTraceAgg t) (rowsOf t hits))"
  have id: "te_TraceID (?F x) = x" for x
    by (simp add: GetTraces_finish_def foldl_aggregate_TraceID newTraceAgg_def)
  have "filter (\<lambda>e. te_TraceID e = t) (map ?F (traceIDs hits))
        = map ?F (filter (\<lambda>x. x = t) (traceIDs hits))"
    by (simp add: filter_map o_def id)
  also have "filter (\<lambda>x. x = t) (traceIDs hits) = [t]"
    using assms by (intro filter_eq_single distinct_traceIDs) (simp add: set_traceIDs)
  finally show ?thesis by (simp add: GetTraces_group_eq)
qed

text \<open>
  The root fields of a summary, exactly: each one is the value of its column in the last row
  of the trace that has an empty parent reference and carries the column as a string, and is
  empty when there is no such row.
\<close>

lemma root_fields_of_trace:
  assumes "t \<noteq> []" and "t \<in> hitTraceID ` set hits"
  shows "\<exists>e. filter (\<lambda>e. te_TraceID e = t) (GetTraces_group hits) = [e]
     \<and> te_RootSpanID e = lastPresent ''span_id'' (rootRows t hits)
     \<and> te_RootSpanName e = lastPresent ''operation_name'' (rootRows t hits)
     \<and> te_RootSpanKind e = lastPresent ''span_kind'' (rootRows t hits)"
proof -
  let ?a = "foldl GetTraces_aggregate (newTraceAgg t) (rowsOf t hits)"
  let ?e = "GetTraces_finish ?a"
  have one: "filter (\<lambda>e. te_TraceID e = t) (GetTraces_group hits) = [?e]"
    using assms by (rule GetTraces_group_entry)
  have init: "te_RootSpanID (agg_entry (newTraceAgg t)) = []"
    "te_RootSpanName (agg_entry (newTraceAgg t)) = []"
    "te_RootSpanKind (agg_entry (newTraceAgg t)) = []"
    by (simp_all add: newTraceAgg_def zeroTraceEntry_def)
  have "te_RootSpanID (agg_entry ?a) =
     (case rev (List.map_filter (\<lambda>h. asString (h ''span_id'')) (filter isRootRow (rowsOf t hits))) of
        [] \<Rightarrow> te_RootSpanID (agg_entry (newTraceAgg t))
      | v # _ \<Rightarrow> v)"
    by (rule foldl_aggregate_last_present) (rule aggregate_RootSpanID)
  then have rid: "te_RootSpanID ?e = lastPresent ''span_id'' (rootRows t hits)"
    by (simp add: init GetTraces_finish_def lastPresent_def rootRows_def cong: list.case_cong)
  have "te_RootSpanName (agg_entry ?a) =
     (case rev (List.map_filter (\<lambda>h. asString (h ''operation_name''))
                  (filter isRootRow (rowsOf t hits))) of
        [] \<Rightarrow> te_RootSpanName (agg_entry (newTraceAgg t))
      | v # _ \<Rightarrow> v)"
    by (rule foldl_aggregate_last_present) (rule aggregate_RootSpanName)
  then have rname: "te_RootSpanName ?e = lastPresent ''operation_name'' (rootRows t hits)"
    by (simp add: init GetTraces_finish_def lastPresent_def rootRows_def cong: list.case_cong)
  have "te_RootSpanKind (agg_entry ?a) =
     (case rev (List.map_filter (\<lambda>h. asString (h ''span_kind'')) (filter isRootRow (rowsOf t hits))) of
        [] \<Rightarrow> te_RootSpanKind (agg_entry (newTraceAgg t))
      | v # _ \<Rightarrow> v)"
    by (rule foldl_aggregate_last_present) (rule aggregate_RootSpanKind)
  then have rkind: "te_RootSpanKind ?e = lastPresent ''span_kind'' (rootRows t hits)"
    by (simp add: init GetTraces_finish_def lastPresent_def rootRows_def cong: list.case_cong)
  show ?thesis
    using one rid rname rkind by blast
qed

text \<open>
  What holds of the summaries whatever the times are: one summary per trace identifier, in
  the order of first appearance; the span count is the number of rows of the trace; the
  duration is the end minus the start; a trace without a row of empty parent reference has
  empty root fields.
\<close>

lemma GetTraces_group_summaries:
  "map te_TraceID (GetTraces_group hits) = traceIDs hits
   \<and> (\<forall>e \<in> set (GetTraces_group hits).
         te_SpanCount e = int (length (rowsOf (te_TraceID e) hits))
       \<and> te_DurationNs e = te_EndTime e - te_StartTime e
       \<and> te_TraceName e = te_RootSpanName e
       \<and> (rootRows (te_TraceID e) hits = [] \<longrightarrow>
            te_RootSpanID e = [] \<and> te_RootSpanName e = [] \<and> te_RootSpanKind e = []))"
proof (intro conjI ballI)
  show "map te_TraceID (GetTraces_group hits) = traceIDs hits"
    by (simp add: GetTraces_group_eq o_def GetTraces_finish_def foldl_aggregate_TraceID
        newTraceAgg_def)
next
  fix e assume "e \<in> set (GetTraces_group hits)"
  then obtain t where t: "t \<in> set (traceIDs hits)"
    and e: "e = GetTraces_finish (foldl GetTraces_aggregate (newTraceAgg t) (rowsOf t hits))"
    by (auto simp add: GetTraces_group_eq)
  have id: "te_TraceID e = t"
    by (simp add: e GetTraces_finish_def foldl_aggregate_TraceID newTraceAgg_def)
  show "te_SpanCount e = int (length (rowsOf (te_TraceID e) hits))"
    unfolding id by (simp add: e GetTraces_finish_def foldl_aggregate_SpanCount newTraceAgg_def
        zeroTraceEntry_def)
  show "te_DurationNs e = te_EndTime e - te_StartTime e"
    by (simp add: e GetTraces_finish_def)
  show "te_TraceName e = te_RootSpanName e"
    by (simp add: e GetTraces_finish_def)
  from t have "t \<noteq> []" and "t \<in> hitTraceID ` set hits"
    by (simp_all add: set_traceIDs)
  then obtain e' where "filter (\<lambda>e. te_TraceID e = t) (GetTraces_group hits) = [e']"
    and "te_RootSpanID e' = lastPresent ''span_id'' (rootRows t hits)"
    and "te_RootSpanName e' = lastPresent ''operation_name'' (rootRows t hits)"
    and "te_RootSpanKind e' = lastPresent ''span_kind'' (rootRows t hits)"
    using root_fields_of_trace by blast
  moreover have "filter (\<lambda>e. te_TraceID e = t) (GetTraces_group hits) = [e]"
    using \<open>t \<noteq> []\<close> \<open>t \<in> hitTraceID ` set hits\<close> by (simp add: GetTraces_group_entry e)
  ultimately show "rootRows (te_TraceID e) hits = [] \<longrightarrow>
      te_RootSpanID e = [] \<and> te_RootSpanName e = [] \<and> te_RootSpanKind e = []"
    unfolding id by (auto simp add: lastPresent_def List.map_filter_def)
qed

text \<open>
  The times of a summary.  When no row of the trace starts at 0, the start time is the least
  start among its rows (by the signed order of \<open>int64\<close>); the end time is the greatest end
  or 0, whichever is greater.
\<close>

lemma aggregate_minStart:
  "agg_minStart (GetTraces_aggregate a h) =
     (case asNumber (h ''start_time'') of
        None \<Rightarrow> agg_minStart a
      | Some s \<Rightarrow> if agg_minStart a = 0 \<or> s <s agg_minStart a then s else agg_minStart a)"
  by (simp add: GetTraces_aggregate_def Let_def split: option.splits)

lemma aggregate_maxEnd:
  "agg_maxEnd (GetTraces_aggregate a h) =
     (case asNumber (h ''end_time'') of
        None \<Rightarrow> agg_maxEnd a
      | Some e \<Rightarrow> if agg_maxEnd a <s e then e else agg_maxEnd a)"
  by (simp add: GetTraces_aggregate_def Let_def split: option.splits)

lemma startTimes_simps:
  "startTimes [] = []"
  "startTimes (rows @ [h]) =
     startTimes rows @ (case asNumber (h ''start_time'') of None \<Rightarrow> [] | Some s \<Rightarrow> [s])"
  by (simp_all add: startTimes_def List.map_filter_def split: option.splits)

lemma endTimes_simps:
  "endTimes [] = []"
  "endTimes (rows @ [h]) =
     endTimes rows @ (case asNumber (h ''end_time'') of None \<Rightarrow> [] | Some e \<Rightarrow> [e])"
  by (simp_all add: endTimes_def List.map_filter_def split: option.splits)

lemma foldl_aggregate_minStart:
  assumes "0 \<notin> set (startTimes rows)"
  shows "(startTimes rows = [] \<and> agg_minStart (foldl GetTraces_aggregate (newTraceAgg t) rows) = 0)
       \<or> (agg_minStart (foldl GetTraces_aggregate (newTraceAgg t) rows) \<in> set (startTimes rows)
          \<and> (\<forall>s \<in> set (startTimes rows).
                agg_minStart (foldl GetTraces_aggregate (newTraceAgg t) rows) \<le>s s))"
  using assms
proof (induction rows rule: rev_induct)
  case Nil
  then show ?case by (simp add: startTimes_simps newTraceAgg_def)
next
  case (snoc h rows)
  show ?case
  proof (cases "asNumber (h ''start_time'')")
    case None
    then show ?thesis using snoc by (simp add: startTimes_simps aggregate_minStart)
  next
    case (Some s)
    then show ?thesis
      using snoc
      by (auto simp add: startTimes_simps aggregate_minStart word_sless_alt word_sle_eq)
  qed
qed

lemma foldl_aggregate_maxEnd:
  "(agg_maxEnd (foldl GetTraces_aggregate (newTraceAgg t) rows) = 0
      \<or> agg_maxEnd (foldl GetTraces_aggregate (newTraceAgg t) rows) \<in> set (endTimes rows))
   \<and> 0 \<le>s agg_maxEnd (foldl GetTraces_aggregate (newTraceAgg t) rows)
   \<and> (\<forall>e \<in> set (endTimes rows). e \<le>s agg_maxEnd (foldl GetTraces_aggregate (newTraceAgg t) rows))"
proof (induction rows rule: rev_induct)
  case Nil
  then show ?case by (simp add: endTimes_simps newTraceAgg_def)
next
  case (snoc h rows)
  show ?case
  proof (cases "asNumber (h ''end_time'')")
    case None
    then show ?thesis using snoc by (simp add: endTimes_simps aggregate_maxEnd)
  next
    case (Some e)
    then show ?thesis
      using snoc
      by (auto simp add: endTimes_simps aggregate_maxEnd word_sless_alt word_sle_eq)
  qed
qed

lemma GetTraces_group_times:
  assumes "e \<in> set (GetTraces_group hits)"
  shows "(0 \<notin> set (startTimes (rowsOf (te_TraceID e) hits))
          \<and> startTimes (rowsOf (te_TraceID e) hits) \<noteq> [] \<longrightarrow>
            te_StartTime e \<in> set (startTimes (rowsOf (te_TraceID e) hits))
          \<and> (\<forall>s \<in> set (startTimes (rowsOf (te_TraceID e) hits)). te_StartTime e \<le>s s))
       \<and> ((\<exists>x \<in> set (endTimes (rowsOf (te_TraceID e) hits)). 0 <s x) \<longrightarrow>
            te_EndTime e \<in> set (endTimes (rowsOf (te_TraceID e) hits))
          \<and> (\<forall>x \<in> set (endTimes (rowsOf (te_TraceID e) hits)). x \<le>s te_EndTime e))"
proof -
  from assms obtain t where
    e: "e = GetTraces_finish (foldl GetTraces_aggregate (newTraceAgg t) (rowsOf t hits))"
    by (auto simp add: GetTraces_group_eq)
  have id: "te_TraceID e = t"
    by (simp add: e GetTraces_finish_def foldl_aggregate_TraceID newTraceAgg_def)
  have st: "te_StartTime e = agg_minStart (foldl GetTraces_aggregate (newTraceAgg t) (rowsOf t hits))"
    and en: "te_EndTime e = agg_maxEnd (foldl GetTraces_aggregate (newTraceAgg t) (rowsOf t hits))"
    by (simp_all add: e GetTraces_finish_def)
  show ?thesis
    unfolding id st en
    using foldl_aggregate_minStart [of "rowsOf t hits" t] foldl_aggregate_maxEnd [of t "rowsOf t hits"]
    by (auto simp add: word_sless_alt word_sle_eq)
qed

text \<open>
  Where the root fields do come from the last row with an empty parent reference: a field
  does whenever that row carries the column of the field as a string.
\<close>

lemma root_fields_from_last_row:
  assumes "t \<noteq> []" and "t \<in> hitTraceID ` set hits" and "rootRows t hits \<noteq> []"
  shows "\<exists>e. filter (\<lambda>e. te_TraceID e = t) (GetTraces_group hits) = [e]
     \<and> (\<forall>v. asString (last (rootRows t hits) ''span_id'') = Some v \<longrightarrow> te_RootSpanID e = v)
     \<and> (\<forall>v. asString (last (rootRows t hits) ''operation_name'') = Some v
             \<longrightarrow> te_RootSpanName e = v)
     \<and> (\<forall>v. asString (last (rootRows t hits) ''span_kind'') = Some v
             \<longrightarrow> te_RootSpanKind e = v)"
proof -
  obtain e where e: "filter (\<lambda>e. te_TraceID e = t) (GetTraces_group hits) = [e]"
    "te_RootSpanID e = lastPresent ''span_id'' (rootRows t hits)"
    "te_RootSpanName e = lastPresent ''operation_name'' (rootRows t hits)"
    "te_RootSpanKind e = lastPresent ''span_kind'' (rootRows t hits)"
    using root_fields_of_trace [OF assms(1,2)] by blast
  then show ?thesis
    using assms(3) by (auto simp add: lastPresent_last)
qed

lemmas GetTraces_eval_defs =
  GetTraces_group_def GetTraces_hit_def GetTraces_aggregate_def GetTraces_finish_def
  timedSpanRow_def spanRow_def newTraceAgg_def zeroTraceEntry_def stringOrEmpty_def
  asString_def asNumber_def Let_def word_sless_alt

text \<open>
  The example of the specification: of two rows \<open>A\<close> and \<open>B\<close> with an empty parent
  reference and no other column, the root is \<open>B\<close>, with an empty name and kind.
\<close>

lemma GetTraces_two_roots:
  "GetTraces_group twoRootRows
     = [\<lparr> te_TraceID = ''T1'', te_TraceName = [], te_SpanCount = 2,
          te_RootSpanID = ''B'', te_RootSpanName = [], te_RootSpanKind = [],
          te_StartTime = 0, te_EndTime = 0, te_DurationNs = 0 \<rparr>]"
  by (simp add: twoRootRows_def GetTraces_eval_defs)

text \<open>
  Claim C5.  The root fields of a summary do not always come from the last row with an
  empty parent reference.  The loop assigns each root field only when the row carries its
  column as a string and never clears it, so a field that an earlier such row has set stays
  when the last one lacks the column: of the row \<open>A\<close> with the name \<open>GET /\<close> followed by
  the row \<open>B\<close> without a name, both with an empty parent reference, the summary has the
  identifier \<open>B\<close> of the last row and the name \<open>GET /\<close> of the row before it, where the
  last row has no name.
\<close>

theorem GetTraces_stale_root_name:
  "GetTraces_group namedRootThenBareRoot
     = [\<lparr> te_TraceID = ''T1'', te_TraceName = ''GET /'', te_SpanCount = 2,
          te_RootSpanID = ''B'', te_RootSpanName = ''GET /'', te_RootSpanKind = [],
          te_StartTime = 0, te_EndTime = 0, te_DurationNs = 0 \<rparr>]
   \<and> rootRows ''T1'' namedRootThenBareRoot = namedRootThenBareRoot
   \<and> asString (last namedRootThenBareRoot ''span_id'') = Some ''B''
   \<and> asString (last namedRootThenBareRoot ''operation_name'') = None"
  by (simp add: namedRootThenBareRoot_def GetTraces_eval_defs rootRows_def rowsOf_def
      isRootRow_def hitTraceID_def)

text \<open>
  Claim C6.  The start time of a summary is not always the least start of its spans: the
  loop reads a running minimum of 0 as not yet set, so a span that starts at 0, followed by
  one that starts at 5, gives the start time 5 and the duration 15, where the least start
  is 0 and the duration 20.
\<close>

theorem GetTraces_zero_start_time:
  "GetTraces_group zeroStartRows
     = [\<lparr> te_TraceID = ''T1'', te_TraceName = [], te_SpanCount = 2, te_RootSpanID = ''A'',
          te_RootSpanName = [], te_RootSpanKind = [], te_StartTime = 5, te_EndTime = 20,
          te_DurationNs = 15 \<rparr>]"
  by (simp add: zeroStartRows_def GetTraces_eval_defs)

end
